theory Spec2Isabelle
  imports Complex_Main
begin

section \<open>Python values and the float environment\<close>

text \<open>
  The program computes with Python floats. Their arithmetic, parsing and printing belong to
  the Python runtime, so they are taken as a record of operations over an arbitrary carrier
  \<open>'f\<close>. No law of arithmetic is assumed about them: every theorem below holds for each
  interpretation, IEEE doubles included.
\<close>

record 'f float_ops =
  f_add :: "'f \<Rightarrow> 'f \<Rightarrow> 'f"          \<comment> \<open>\<^verbatim>\<open>x + y\<close>\<close>
  f_mul :: "'f \<Rightarrow> 'f \<Rightarrow> 'f"          \<comment> \<open>\<^verbatim>\<open>x * y\<close>\<close>
  f_div :: "'f \<Rightarrow> 'f \<Rightarrow> 'f"          \<comment> \<open>\<^verbatim>\<open>x / y\<close>\<close>
  f_of_int :: "int \<Rightarrow> 'f"            \<comment> \<open>\<^verbatim>\<open>float(n)\<close>, and the literals \<^verbatim>\<open>0.0\<close>, \<^verbatim>\<open>100\<close>\<close>
  f_parse :: "string \<Rightarrow> 'f option"   \<comment> \<open>\<^verbatim>\<open>float(text)\<close>; \<open>None\<close> is \<^verbatim>\<open>ValueError\<close>\<close>
  f_repr :: "'f \<Rightarrow> string"            \<comment> \<open>\<^verbatim>\<open>str(x)\<close>, which is \<^verbatim>\<open>repr(x)\<close> and \<^verbatim>\<open>format(x, '')\<close>\<close>
  f_fixed2 :: "'f \<Rightarrow> string"          \<comment> \<open>\<^verbatim>\<open>format(x, '.2f')\<close>\<close>
  f_truth :: "'f \<Rightarrow> bool"             \<comment> \<open>\<^verbatim>\<open>bool(x)\<close>\<close>
  f_literal :: "string \<Rightarrow> 'f option"  \<comment> \<open>value of a numeric expression token under \<^verbatim>\<open>eval\<close>\<close>
  f_isnan :: "'f \<Rightarrow> bool"             \<comment> \<open>\<^verbatim>\<open>x != x\<close>: the float is a NaN\<close>

text \<open>
  The exceptions of the Python runtime, of \<^verbatim>\<open>sqlite3\<close> and of \<^verbatim>\<open>fpdf\<close> that the program
  meets.
\<close>

datatype exn =
    ValueError | TypeError | KeyError | IndexError | SyntaxError | NameError | AttributeError
  | OperationalError | IntegrityError

text \<open>A line item as the program holds it: \<^verbatim>\<open>(description, qty, price)\<close>.\<close>

type_synonym 'f item = "string \<times> 'f \<times> 'f"

section \<open>The Totals Calculator\<close>

text \<open>
  A cell of the item grid is \<^verbatim>\<open>self.table.item(row, col)\<close>: \<open>None\<close> when the cell was
  never set, otherwise the item with its text. A grid row is its three cells.
\<close>

type_synonym cell = "string option"
type_synonym grid_row = "cell \<times> cell \<times> cell"

definition py_float :: "'f float_ops \<Rightarrow> string \<Rightarrow> exn + 'f" where
  "py_float ops s = (case f_parse ops s of None \<Rightarrow> Inl ValueError | Some x \<Rightarrow> Inr x)"

text \<open>
  The body of the \<^verbatim>\<open>try\<close> block of one row: both conversions come before the
  accumulator and the list are touched.
\<close>

definition row_try ::
  "'f float_ops \<Rightarrow> string \<Rightarrow> string \<Rightarrow> string \<Rightarrow> 'f \<times> 'f item list \<Rightarrow> exn + ('f \<times> 'f item list)"
where
  "row_try ops desc_text qty_text price_text st =
     (case py_float ops qty_text of
        Inl e \<Rightarrow> Inl e
      | Inr qty \<Rightarrow>
          (case py_float ops price_text of
             Inl e \<Rightarrow> Inl e
           | Inr price \<Rightarrow>
               (let total = f_mul ops qty price;
                    subtotal = f_add ops (fst st) total
                in Inr (subtotal, snd st @ [(desc_text, qty, price)]))))"

text \<open>
  One turn of the loop on the state \<open>(subtotal, items)\<close>. A row with a cell missing is
  passed over. \<^verbatim>\<open>except ValueError: continue\<close> catches \<^verbatim>\<open>ValueError\<close> alone; any
  other exception would leave the function.
\<close>

definition row_step ::
  "'f float_ops \<Rightarrow> grid_row \<Rightarrow> 'f \<times> 'f item list \<Rightarrow> exn + ('f \<times> 'f item list)"
where
  "row_step ops r st =
     (case r of
        (Some desc_text, Some qty_text, Some price_text) \<Rightarrow>
          (case row_try ops desc_text qty_text price_text st of
             Inl ValueError \<Rightarrow> Inr st
           | Inl e \<Rightarrow> Inl e
           | Inr st' \<Rightarrow> Inr st')
      | _ \<Rightarrow> Inr st)"

fun totals_loop ::
  "'f float_ops \<Rightarrow> grid_row list \<Rightarrow> 'f \<times> 'f item list \<Rightarrow> exn + ('f \<times> 'f item list)"
where
  "totals_loop ops [] st = Inr st"
| "totals_loop ops (r # rs) st =
     (case row_step ops r st of
        Inl e \<Rightarrow> Inl e
      | Inr st' \<Rightarrow> totals_loop ops rs st')"

text \<open>
  \<^verbatim>\<open>float(self.tax_input.text() or 0)\<close> under its handler: an empty text gives
  \<^verbatim>\<open>float(0)\<close>, an unparsable one the integer \<^verbatim>\<open>0\<close>, which the division below
  turns into a float.
\<close>

definition tax_rate_of :: "'f float_ops \<Rightarrow> string \<Rightarrow> exn + 'f" where
  "tax_rate_of ops tax_text =
     (if tax_text = [] then Inr (f_of_int ops 0)
      else (case py_float ops tax_text of
              Inl ValueError \<Rightarrow> Inr (f_of_int ops 0)
            | Inl e \<Rightarrow> Inl e
            | Inr r \<Rightarrow> Inr r))"

definition calculate_totals ::
  "'f float_ops \<Rightarrow> grid_row list \<Rightarrow> string \<Rightarrow> exn + ('f item list \<times> 'f \<times> 'f \<times> 'f)"
where
  "calculate_totals ops grid tax_text =
     (case totals_loop ops grid (f_of_int ops 0, []) of
        Inl e \<Rightarrow> Inl e
      | Inr (subtotal, items) \<Rightarrow>
          (case tax_rate_of ops tax_text of
             Inl e \<Rightarrow> Inl e
           | Inr tax_rate \<Rightarrow>
               (let tax = f_mul ops subtotal (f_div ops tax_rate (f_of_int ops 100));
                    total = f_add ops subtotal tax
                in Inr (items, subtotal, tax, total))))"

section \<open>Strings and Python objects\<close>

text \<open>
  A Python string is modelled by a \<^typ>\<open>string\<close>: its characters are the code points below
  256. \<^verbatim>\<open>str.isspace\<close> holds there for the code points 9 to 13, 28 to 32, 133 and 160.
\<close>

definition py_isspace :: "char \<Rightarrow> bool" where
  "py_isspace c =
     (let n = (of_char c :: nat)
      in (9 \<le> n \<and> n \<le> 13) \<or> (28 \<le> n \<and> n \<le> 32) \<or> n = 133 \<or> n = 160)"

definition py_strip :: "string \<Rightarrow> string" where
  "py_strip s = rev (dropWhile py_isspace (rev (dropWhile py_isspace s)))"

text \<open>The objects that \<^verbatim>\<open>sqlite3\<close> binds and returns: \<^verbatim>\<open>None\<close>, \<^verbatim>\<open>str\<close>, \<^verbatim>\<open>float\<close>, \<^verbatim>\<open>int\<close>.\<close>

datatype 'f pyval = PNone | PStr string | PFloat 'f | PInt int

definition digit_char :: "nat \<Rightarrow> char" where
  "digit_char n = ''0123456789'' ! n"

fun str_nat :: "nat \<Rightarrow> string" where
  "str_nat n = (if n < 10 then [digit_char n] else str_nat (n div 10) @ [digit_char (n mod 10)])"

declare str_nat.simps [simp del]





section \<open>The Item Serializer: \<^verbatim>\<open>str(items)\<close>\<close>

text \<open>
  \<^verbatim>\<open>repr\<close> of a string: the quote is \<^verbatim>\<open>"\<close> when the string holds \<^verbatim>\<open>'\<close> and no
  \<^verbatim>\<open>"\<close>, otherwise \<^verbatim>\<open>'\<close>. The quote and the backslash are escaped, tab, newline and
  carriage return get their letters, and the other non-printable code points
  (below 32, 127 to 160, 173) are written \<^verbatim>\<open>\xhh\<close>.
\<close>

definition squote :: char where "squote = CHR 0x27"
definition dquote :: char where "dquote = CHR 0x22"
definition backslash :: char where "backslash = CHR 0x5C"

definition hex_digit :: "nat \<Rightarrow> char" where
  "hex_digit n = (if n < 10 then char_of (48 + n) else char_of (87 + n))"

definition py_isprintable :: "char \<Rightarrow> bool" where
  "py_isprintable c =
     (let n = (of_char c :: nat) in (32 \<le> n \<and> n < 127) \<or> (161 \<le> n \<and> n \<noteq> 173))"

definition repr_quote :: "string \<Rightarrow> char" where
  "repr_quote s = (if squote \<in> set s \<and> dquote \<notin> set s then dquote else squote)"

definition repr_char :: "char \<Rightarrow> char \<Rightarrow> string" where
  "repr_char quote c =
     (if c = quote \<or> c = backslash then [backslash, c]
      else if c = CHR 0x09 then [backslash, CHR ''t'']
      else if c = CHR 0x0A then [backslash, CHR ''n'']
      else if c = CHR 0x0D then [backslash, CHR ''r'']
      else if py_isprintable c then [c]
      else [backslash, CHR ''x'', hex_digit (of_char c div 16), hex_digit (of_char c mod 16)])"

definition repr_str :: "string \<Rightarrow> string" where
  "repr_str s = (let quote = repr_quote s in [quote] @ concat (map (repr_char quote) s) @ [quote])"

text \<open>\<^verbatim>\<open>', '.join(parts)\<close>.\<close>

fun join_comma :: "string list \<Rightarrow> string" where
  "join_comma [] = []"
| "join_comma [x] = x"
| "join_comma (x # y # ys) = x @ '', '' @ join_comma (y # ys)"

definition repr_item :: "'f float_ops \<Rightarrow> 'f item \<Rightarrow> string" where
  "repr_item ops it =
     (case it of (desc, qty, price) \<Rightarrow>
        ''('' @ join_comma [repr_str desc, f_repr ops qty, f_repr ops price] @ '')'')"

text \<open>\<^verbatim>\<open>items_str = str(items)\<close>, on the list of tuples that \<^verbatim>\<open>calculate_totals\<close> returns.\<close>

definition str_items :: "'f float_ops \<Rightarrow> 'f item list \<Rightarrow> string" where
  "str_items ops items = ''['' @ join_comma (map (repr_item ops) items) @ '']''"

section \<open>The store\<close>

text \<open>
  The database file holds at most the one table \<^verbatim>\<open>invoices\<close>. A table is its columns in
  declaration order, its rows (each row lists its values in the order of the columns, as
  \<^verbatim>\<open>SELECT *\<close> returns them) and the counter of \<^verbatim>\<open>AUTOINCREMENT\<close>.
\<close>

datatype column = Column (col_name: string) (col_type: string) (col_unique: bool)

record 'f sql_table =
  t_columns :: "column list"
  t_rows :: "'f pyval list list"
  t_seq :: int

definition column_names :: "'f sql_table \<Rightarrow> string list" where
  "column_names t = map col_name (t_columns t)"

text \<open>The value of a row in a named column.\<close>

definition cell_of :: "column list \<Rightarrow> 'f pyval list \<Rightarrow> string \<Rightarrow> 'f pyval option" where
  "cell_of cols r name = map_of (zip (map col_name cols) r) name"

text \<open>The columns of \<^verbatim>\<open>CREATE TABLE IF NOT EXISTS invoices\<close>, in the order of the statement.\<close>

definition invoices_schema :: "column list" where
  "invoices_schema =
     [Column ''id'' ''INTEGER'' True,
      Column ''invoice_number'' ''TEXT'' True,
      Column ''client_name'' ''TEXT'' False,
      Column ''client_address'' ''TEXT'' False,
      Column ''client_number'' ''TEXT'' False,
      Column ''description'' ''TEXT'' False,
      Column ''items'' ''TEXT'' False,
      Column ''subtotal'' ''REAL'' False,
      Column ''tax'' ''REAL'' False,
      Column ''total'' ''REAL'' False,
      Column ''email'' ''TEXT'' False,
      Column ''company_name'' ''TEXT'' False,
      Column ''company_address'' ''TEXT'' False,
      Column ''company_contact'' ''TEXT'' False,
      Column ''date_added'' ''TEXT'' False,
      Column ''date'' ''TEXT'' False]"

definition create_table_if_not_exists :: "'f sql_table option \<Rightarrow> 'f sql_table" where
  "create_table_if_not_exists db =
     (case db of
        None \<Rightarrow> \<lparr>t_columns = invoices_schema, t_rows = [], t_seq = 0\<rparr>
      | Some t \<Rightarrow> t)"

text \<open>
  \<^verbatim>\<open>ALTER TABLE invoices ADD COLUMN col typ\<close>: a column of that name is an
  \<^verbatim>\<open>OperationalError\<close>; otherwise the column comes last and every row reads \<^verbatim>\<open>NULL\<close> in it.
\<close>

definition alter_table_add_column :: "'f sql_table \<Rightarrow> string \<Rightarrow> string \<Rightarrow> exn + 'f sql_table" where
  "alter_table_add_column t col typ =
     (if col \<in> set (column_names t) then Inl OperationalError
      else Inr (t\<lparr>t_columns := t_columns t @ [Column col typ False],
                 t_rows := map (\<lambda>r. r @ [PNone]) (t_rows t)\<rparr>))"

text \<open>The loop of \<^verbatim>\<open>init_db\<close>; \<^verbatim>\<open>except sqlite3.OperationalError: pass\<close>.\<close>

fun add_columns :: "'f sql_table \<Rightarrow> (string \<times> string) list \<Rightarrow> exn + 'f sql_table" where
  "add_columns t [] = Inr t"
| "add_columns t ((col, typ) # cs) =
     (case alter_table_add_column t col typ of
        Inl OperationalError \<Rightarrow> add_columns t cs
      | Inl e \<Rightarrow> Inl e
      | Inr t' \<Rightarrow> add_columns t' cs)"

definition init_db :: "'f sql_table option \<Rightarrow> exn + 'f sql_table option" where
  "init_db db =
     (case add_columns (create_table_if_not_exists db)
             [(''date_added'', ''TEXT''), (''date'', ''TEXT''),
              (''client_address'', ''TEXT''), (''client_number'', ''TEXT'')] of
        Inl e \<Rightarrow> Inl e
      | Inr t \<Rightarrow> Inr (Some t))"

text \<open>
  The parameters of a statement. \<^verbatim>\<open>sqlite3\<close> binds a float that is a NaN as \<^verbatim>\<open>NULL\<close>, and
  every other object of the four types as it is; the columns of the program keep a string
  and a float as they are bound.
\<close>

definition sql_value :: "'f float_ops \<Rightarrow> 'f pyval \<Rightarrow> 'f pyval" where
  "sql_value ops v =
     (case v of
        PFloat x \<Rightarrow> if f_isnan ops x then PNone else PFloat x
      | _ \<Rightarrow> v)"

definition sql_params ::
  "'f float_ops \<Rightarrow> (string \<times> 'f pyval) list \<Rightarrow> (string \<times> 'f pyval) list"
where
  "sql_params ops binds = map (\<lambda>b. (fst b, sql_value ops (snd b))) binds"

text \<open>
  \<^verbatim>\<open>INSERT INTO invoices (c1, ...) VALUES (?, ...)\<close>. A named column that the table lacks is
  an \<^verbatim>\<open>OperationalError\<close>. The row takes the next \<^verbatim>\<open>id\<close>, the bound values, and
  \<^verbatim>\<open>NULL\<close> elsewhere. A value that a \<^verbatim>\<open>UNIQUE\<close> column already holds is an
  \<^verbatim>\<open>IntegrityError\<close>, and nothing is written. \<open>insert_row\<close> is the statement on the values
  as the database takes them, \<open>sql_insert\<close> the call with the Python objects.
\<close>

definition has_columns :: "'f sql_table \<Rightarrow> (string \<times> 'f pyval) list \<Rightarrow> bool" where
  "has_columns t binds = list_all (\<lambda>b. fst b \<in> set (column_names t)) binds"

definition new_row :: "column list \<Rightarrow> int \<Rightarrow> (string \<times> 'f pyval) list \<Rightarrow> 'f pyval list" where
  "new_row cols new_id binds =
     map (\<lambda>c. case map_of binds (col_name c) of
                 Some v \<Rightarrow> v
               | None \<Rightarrow> if col_name c = ''id'' then PInt new_id else PNone) cols"

definition unique_conflict :: "'f sql_table \<Rightarrow> 'f pyval list \<Rightarrow> bool" where
  "unique_conflict t r =
     list_ex (\<lambda>c. col_unique c \<and>
                  (case cell_of (t_columns t) r (col_name c) of
                     None \<Rightarrow> False
                   | Some PNone \<Rightarrow> False
                   | Some v \<Rightarrow> list_ex (\<lambda>r'. cell_of (t_columns t) r' (col_name c) = Some v) (t_rows t)))
             (t_columns t)"

text \<open>
  \<^verbatim>\<open>AUTOINCREMENT\<close>: the new \<^verbatim>\<open>id\<close> is one more than the largest that the table holds or
  has ever held.
\<close>

definition row_ids :: "'f sql_table \<Rightarrow> int list" where
  "row_ids t =
     concat (map (\<lambda>r. case cell_of (t_columns t) r ''id'' of Some (PInt i) \<Rightarrow> [i] | _ \<Rightarrow> [])
               (t_rows t))"

definition next_id :: "'f sql_table \<Rightarrow> int" where
  "next_id t = fold max (row_ids t) (t_seq t) + 1"

definition insert_row :: "'f sql_table \<Rightarrow> (string \<times> 'f pyval) list \<Rightarrow> exn + 'f sql_table" where
  "insert_row t binds =
     (if \<not> has_columns t binds then Inl OperationalError
      else (let new_id = next_id t;
                r = new_row (t_columns t) new_id binds
            in if unique_conflict t r then Inl IntegrityError
               else Inr (t\<lparr>t_rows := t_rows t @ [r], t_seq := new_id\<rparr>)))"

definition sql_insert ::
  "'f float_ops \<Rightarrow> 'f sql_table \<Rightarrow> (string \<times> 'f pyval) list \<Rightarrow> exn + 'f sql_table"
where
  "sql_insert ops t binds = insert_row t (sql_params ops binds)"

text \<open>
  \<^verbatim>\<open>UPDATE invoices SET c1=?, ... WHERE w=?\<close>: every row whose \<open>w\<close> is the bound value takes
  the bound values in the named columns; \<^verbatim>\<open>NULL\<close> equals nothing. The statement of
  \<^verbatim>\<open>save_invoice\<close> sets no \<^verbatim>\<open>UNIQUE\<close> column of the schema, so no constraint is checked
  here. \<open>update_rows\<close> is the statement on the values as the database takes them,
  \<open>sql_update\<close> the call with the Python objects.
\<close>

fun set_cells :: "column list \<Rightarrow> (string \<times> 'f pyval) list \<Rightarrow> 'f pyval list \<Rightarrow> 'f pyval list" where
  "set_cells (c # cs) binds (v # vs) =
     (case map_of binds (col_name c) of Some v' \<Rightarrow> v' | None \<Rightarrow> v) # set_cells cs binds vs"
| "set_cells cs binds vs = vs"

definition update_rows ::
  "'f sql_table \<Rightarrow> (string \<times> 'f pyval) list \<Rightarrow> string \<Rightarrow> 'f pyval \<Rightarrow> exn + 'f sql_table"
where
  "update_rows t binds w wv =
     (if \<not> has_columns t binds \<or> w \<notin> set (column_names t) then Inl OperationalError
      else Inr (t\<lparr>t_rows :=
                    map (\<lambda>r. if wv \<noteq> PNone \<and> cell_of (t_columns t) r w = Some wv
                              then set_cells (t_columns t) binds r else r) (t_rows t)\<rparr>))"

definition sql_update ::
  "'f float_ops \<Rightarrow> 'f sql_table \<Rightarrow> (string \<times> 'f pyval) list \<Rightarrow> string \<Rightarrow> 'f pyval
     \<Rightarrow> exn + 'f sql_table"
where
  "sql_update ops t binds w wv = update_rows t (sql_params ops binds) w (sql_value ops wv)"

text \<open>\<^verbatim>\<open>SELECT * FROM invoices WHERE id = ?\<close> followed by \<^verbatim>\<open>fetchone()\<close>.\<close>

definition select_by_id :: "'f sql_table \<Rightarrow> int \<Rightarrow> exn + 'f pyval list option" where
  "select_by_id t invoice_id =
     (if ''id'' \<notin> set (column_names t) then Inl OperationalError
      else Inr (find (\<lambda>r. cell_of (t_columns t) r ''id'' = Some (PInt invoice_id)) (t_rows t)))"

section \<open>The print document\<close>

text \<open>
  A document is the sequence of calls made on the \<^verbatim>\<open>FPDF\<close> object, with their arguments.
  \<^verbatim>\<open>Cell w h txt border ln align fill\<close> is \<^verbatim>\<open>pdf.cell\<close>, whose defaults are
  \<^verbatim>\<open>border=0, ln=0, align='', fill=False\<close>. The text of a cell is a \<^verbatim>\<open>str\<close>: the library
  calls a method of \<^verbatim>\<open>str\<close> on the object passed, so that any other object is an
  \<^verbatim>\<open>AttributeError\<close>. The standard font of the document takes the code points below 256,
  which are the characters of a \<^typ>\<open>string\<close>.
\<close>

datatype pdf_cmd =
    AddPage
  | SetFont string string nat
  | SetTextColor nat nat nat
  | SetFillColor nat nat nat
  | Cell nat nat string nat nat string bool
  | Ln nat
  | Output string


text \<open>
  The calls that \<^verbatim>\<open>generate_pdf\<close> and \<^verbatim>\<open>print_invoice\<close> make alike, from the three texts of
  the company and from \<^verbatim>\<open>str\<close> of the number and of the date.
\<close>

definition pdf_heading :: "string \<Rightarrow> string \<Rightarrow> string \<Rightarrow> string \<Rightarrow> string \<Rightarrow> pdf_cmd list" where
  "pdf_heading comp_name comp_addr comp_contact number date_v =
     [AddPage,
      SetFont ''Arial'' ''B'' 16,
      SetTextColor 32 100 106,
      Cell 0 10 comp_name 0 1 [] False,
      SetFont ''Arial'' ''I'' 10,
      SetTextColor 100 100 100,
      Cell 0 6 ''Experts in earning trusts'' 0 1 [] False,
      SetFont ''Arial'' [] 12,
      SetTextColor 34 34 34,
      Cell 0 6 comp_addr 0 1 [] False,
      Cell 0 6 comp_contact 0 1 [] False,
      Ln 2,
      SetFont ''Arial'' ''B'' 24,
      SetTextColor 0 136 136,
      Cell 0 12 ''INVOICE'' 0 1 ''R'' False,
      SetFont ''Arial'' [] 12,
      SetTextColor 34 34 34,
      Cell 0 6 (''INVOICE: '' @ number) 0 1 ''R'' False,
      Cell 0 6 (''DATE: '' @ date_v) 0 1 ''R'' False,
      Ln 2]"

definition pdf_table_head :: "pdf_cmd list" where
  "pdf_table_head =
     [Ln 2,
      SetFillColor 230 242 242,
      SetTextColor 32 100 106,
      SetFont ''Arial'' ''B'' 12,
      Cell 80 10 ''DESCRIPTION'' 1 0 ''L'' True,
      Cell 30 10 ''QTY'' 1 0 ''C'' True,
      Cell 40 10 ''RATE'' 1 0 ''R'' True,
      Cell 40 10 ''AMOUNT'' 1 1 ''R'' True,
      SetFont ''Arial'' [] 12,
      SetTextColor 34 34 34]"

text \<open>The body of \<^verbatim>\<open>for item, qty, price in items\<close>.\<close>

definition pdf_item_cells :: "'f float_ops \<Rightarrow> 'f item \<Rightarrow> pdf_cmd list" where
  "pdf_item_cells ops it =
     (case it of (item, qty, price) \<Rightarrow>
        (let total_item = f_mul ops qty price
         in [Cell 80 10 item 1 0 [] False,
             Cell 30 10 (f_repr ops qty) 1 0 ''C'' False,
             Cell 40 10 (''$'' @ f_fixed2 ops price) 1 0 ''R'' False,
             Cell 40 10 (''$'' @ f_fixed2 ops total_item) 1 1 ''R'' False]))"

text \<open>The three totals rows, from the texts of \<^verbatim>\<open>f"{subtotal:.2f}"\<close> and its two likes.\<close>

definition pdf_totals :: "string \<Rightarrow> string \<Rightarrow> string \<Rightarrow> pdf_cmd list" where
  "pdf_totals subtotal_2f tax_2f total_2f =
     [SetFont ''Arial'' ''B'' 12,
      Cell 150 10 ''Subtotal'' 1 0 [] False,
      Cell 40 10 (''$'' @ subtotal_2f) 1 1 ''R'' False,
      Cell 150 10 ''Tax'' 1 0 [] False,
      Cell 40 10 (''$'' @ tax_2f) 1 1 ''R'' False,
      Cell 150 10 ''Total'' 1 0 [] False,
      Cell 40 10 (''$'' @ total_2f) 1 1 ''R'' False]"

definition pdf_closing :: "pdf_cmd list" where
  "pdf_closing =
     [Ln 10,
      SetFont ''Arial'' ''B'' 12,
      SetTextColor 34 34 34,
      Cell 0 10 ''THANK YOU FOR YOUR BUSINESS!'' 0 1 [] False]"

text \<open>
  \<^verbatim>\<open>InvoiceForm.generate_pdf\<close>: all its arguments are strings and floats. The e-mail line is
  the text of the widget, not stripped, and is printed even when empty. The result is the
  file name under the output directory and the document.
\<close>

definition generate_pdf ::
  "'f float_ops \<Rightarrow> string \<Rightarrow> string \<Rightarrow> string \<Rightarrow> string \<Rightarrow> string \<Rightarrow> string \<Rightarrow> 'f item list
     \<Rightarrow> 'f \<Rightarrow> 'f \<Rightarrow> 'f \<Rightarrow> string \<Rightarrow> string \<Rightarrow> string \<Rightarrow> string \<Rightarrow> string \<times> pdf_cmd list"
where
  "generate_pdf ops email_text number name client_addr client_num desc items
       subtotal tax total' comp_name comp_addr comp_contact date_v =
     (let path = ''invoice_'' @ number @ ''.pdf''
      in (path,
          pdf_heading comp_name comp_addr comp_contact number date_v
          @ [SetFont ''Arial'' ''B'' 12,
             Cell 0 8 (''TO: '' @ name) 0 1 [] False]
          @ (if client_addr \<noteq> []
             then [SetFont ''Arial'' [] 12,
                   Cell 0 6 (''Address: '' @ client_addr) 0 1 [] False]
             else [])
          @ (if client_num \<noteq> []
             then [SetFont ''Arial'' [] 12,
                   Cell 0 6 (''Number: '' @ client_num) 0 1 [] False]
             else [])
          @ [SetFont ''Arial'' [] 12,
             Cell 0 6 email_text 0 1 [] False,
             SetFont ''Arial'' ''B'' 12,
             Cell 0 8 (''FOR: '' @ desc) 0 1 [] False]
          @ pdf_table_head
          @ concat (map (pdf_item_cells ops) items)
          @ pdf_totals (f_fixed2 ops subtotal) (f_fixed2 ops tax) (f_fixed2 ops total')
          @ pdf_closing
          @ [Output path]))"

section \<open>Saving an invoice\<close>

text \<open>The widgets of \<^verbatim>\<open>InvoiceForm\<close> that \<^verbatim>\<open>save_invoice\<close> reads, under the names of the source.\<close>

record form =
  edit_mode :: bool
  company_name :: string
  company_address :: string
  company_contact :: string
  invoice_number :: string
  client_name :: string
  client_address :: string
  client_number :: string
  description :: string
  table :: "grid_row list"
  tax_input :: string
  email :: string
  date :: string

text \<open>The database file and the files of the output directory (the newest binding first).\<close>

record 'f world =
  db :: "'f sql_table option"
  files :: "(string \<times> pdf_cmd list) list"

text \<open>What the dialog tells the user when \<^verbatim>\<open>save_invoice\<close> returns.\<close>

datatype message = MissingInfo | MissingItems | Updated | Saved | Duplicate

text \<open>
  The columns that the two statements of \<^verbatim>\<open>save_invoice\<close> name, in the order of their
  \<^verbatim>\<open>?\<close> placeholders: the tuple of parameters is bound to them position by position.
\<close>

definition update_columns :: "string list" where
  "update_columns =
     [''client_name'', ''client_address'', ''client_number'', ''description'', ''items'',
      ''subtotal'', ''tax'', ''total'', ''email'', ''company_name'', ''company_address'',
      ''company_contact'', ''date_added'']"

definition insert_columns :: "string list" where
  "insert_columns =
     [''invoice_number'', ''client_name'', ''client_address'', ''client_number'',
      ''description'', ''items'', ''subtotal'', ''tax'', ''total'', ''email'', ''company_name'',
      ''company_address'', ''company_contact'', ''date_added'', ''date'']"

text \<open>
  \<^verbatim>\<open>save_invoice\<close>, with the clock read as \<open>today\<close> (\<^verbatim>\<open>'%Y-%m-%d'\<close>) and \<open>now\<close>
  (\<^verbatim>\<open>'%Y-%m-%d %H:%M:%S'\<close>). An exception that leaves the \<^verbatim>\<open>with\<close> block rolls the
  transaction back: the world is then the one before the call. Only the insertion stands
  under \<^verbatim>\<open>except sqlite3.IntegrityError\<close>.
\<close>

definition save_invoice ::
  "'f float_ops \<Rightarrow> string \<Rightarrow> string \<Rightarrow> form \<Rightarrow> 'f world \<Rightarrow> 'f world \<times> (exn + message)"
where
  "save_invoice ops today now fm w =
     (let number = py_strip (invoice_number fm);
          name = py_strip (client_name fm);
          client_addr = py_strip (client_address fm);
          client_num = py_strip (client_number fm);
          desc = py_strip (description fm);
          email_v = py_strip (email fm);
          date_v = (if py_strip (date fm) = [] then today else py_strip (date fm))
      in if number = [] \<or> name = [] \<or> desc = [] then (w, Inr MissingInfo)
         else
           (case calculate_totals ops (table fm) (tax_input fm) of
              Inl e \<Rightarrow> (w, Inl e)
            | Inr (items, subtotal, tax, total') \<Rightarrow>
                if items = [] then (w, Inr MissingItems)
                else
                  (let items_str = str_items ops items;
                       comp_name = py_strip (company_name fm);
                       comp_addr = py_strip (company_address fm);
                       comp_contact = py_strip (company_contact fm);
                       pdf = generate_pdf ops (email fm) number name client_addr client_num desc
                               items subtotal tax total' comp_name comp_addr comp_contact date_v
                   in if edit_mode fm then
                        (case db w of
                           None \<Rightarrow> (w, Inl OperationalError)
                         | Some t \<Rightarrow>
                             (case sql_update ops t
                                     (zip update_columns
                                        [PStr name, PStr client_addr, PStr client_num,
                                         PStr desc, PStr items_str, PFloat subtotal,
                                         PFloat tax, PFloat total', PStr email_v,
                                         PStr comp_name, PStr comp_addr, PStr comp_contact,
                                         PStr date_v])
                                     ''invoice_number'' (PStr number) of
                                Inl e \<Rightarrow> (w, Inl e)
                              | Inr t' \<Rightarrow>
                                  (\<lparr>db = Some t', files = pdf # files w\<rparr>, Inr Updated)))
                      else
                        (case db w of
                           None \<Rightarrow> (w, Inl OperationalError)
                         | Some t \<Rightarrow>
                             (case sql_insert ops t
                                     (zip insert_columns
                                        [PStr number, PStr name, PStr client_addr,
                                         PStr client_num, PStr desc, PStr items_str,
                                         PFloat subtotal, PFloat tax, PFloat total',
                                         PStr email_v, PStr comp_name, PStr comp_addr,
                                         PStr comp_contact, PStr now, PStr date_v]) of
                                Inl IntegrityError \<Rightarrow> (w, Inr Duplicate)
                              | Inl e \<Rightarrow> (w, Inl e)
                              | Inr t' \<Rightarrow>
                                  (\<lparr>db = Some t', files = pdf # files w\<rparr>, Inr Saved))))))"

section \<open>Reading one invoice\<close>

text \<open>A Python \<^verbatim>\<open>dict\<close> with string keys, in insertion order.\<close>

type_synonym 'f dict = "(string \<times> 'f pyval) list"



text \<open>
  \<^verbatim>\<open>DashboardWidget.open_invoice_details\<close> up to the dictionary it hands to the viewer:
  \<open>None\<close> is the "Not Found" warning. The keys are bound to the positions 0 to 11 of the
  row; a row shorter than that is an \<^verbatim>\<open>IndexError\<close>.
\<close>

definition invoice_keys :: "string list" where
  "invoice_keys =
     [''id'', ''invoice_number'', ''client_name'', ''description'', ''items'', ''subtotal'',
      ''tax'', ''total'', ''email'', ''company_name'', ''company_address'', ''company_contact'']"

definition open_invoice_details :: "'f sql_table option \<Rightarrow> int \<Rightarrow> exn + 'f dict option" where
  "open_invoice_details store invoice_id =
     (case store of
        None \<Rightarrow> Inl OperationalError
      | Some t \<Rightarrow>
          (case select_by_id t invoice_id of
             Inl e \<Rightarrow> Inl e
           | Inr None \<Rightarrow> Inr None
           | Inr (Some data) \<Rightarrow>
               if length data < 12 then Inl IndexError
               else Inr (Some (zip invoice_keys (take 12 data)))))"

section \<open>The Item Deserializer: \<^verbatim>\<open>eval(text)\<close>\<close>

text \<open>
  \<^verbatim>\<open>eval\<close> is the Python evaluator. It is modelled on the fragment of the language that
  the stored texts are written in: a list display of parenthesised triples, a string
  literal (one line, in single or double quotes, with the escapes
  \<^verbatim>\<open>\\ \' \" \n \r \t \a \b \f \v \xhh\<close>) followed by two atoms, an atom being a numeric
  expression or a name, with blanks between the tokens. A text outside the fragment is
  reported as a \<^verbatim>\<open>SyntaxError\<close>, although Python evaluates many of them.
  The text is first cut into tokens by an automaton that reads one character at a time.
\<close>

datatype token = LBrack | RBrack | LParen | RParen | Comma | TStr string | TAtom string

datatype lex_state =
    Start
  | InStr char string            \<comment> \<open>the quote, the characters read\<close>
  | InEsc char string            \<comment> \<open>after a backslash\<close>
  | InHex1 char string           \<comment> \<open>after \<^verbatim>\<open>\x\<close>\<close>
  | InHex2 char string nat       \<comment> \<open>after \<^verbatim>\<open>\x\<close> and one digit\<close>
  | InAtom string

definition is_digit :: "char \<Rightarrow> bool" where
  "is_digit c = (let n = (of_char c :: nat) in 48 \<le> n \<and> n \<le> 57)"

definition is_alpha :: "char \<Rightarrow> bool" where
  "is_alpha c =
     (let n = (of_char c :: nat) in (97 \<le> n \<and> n \<le> 122) \<or> (65 \<le> n \<and> n \<le> 90) \<or> n = 95)"

definition is_atom_char :: "char \<Rightarrow> bool" where
  "is_atom_char c = (is_digit c \<or> is_alpha c \<or> c = CHR ''.'' \<or> c = CHR ''+'' \<or> c = CHR ''-'')"

definition hex_value :: "char \<Rightarrow> nat option" where
  "hex_value c =
     (let n = (of_char c :: nat)
      in if 48 \<le> n \<and> n \<le> 57 then Some (n - 48)
         else if 97 \<le> n \<and> n \<le> 102 then Some (n - 87)
         else if 65 \<le> n \<and> n \<le> 70 then Some (n - 55)
         else None)"

text \<open>The character that a one-letter escape stands for.\<close>

definition escape_char :: "char \<Rightarrow> string" where
  "escape_char c =
     (if c = backslash \<or> c = squote \<or> c = dquote then [c]
      else if c = CHR ''n'' then [CHR 0x0A]
      else if c = CHR ''r'' then [CHR 0x0D]
      else if c = CHR ''t'' then [CHR 0x09]
      else if c = CHR ''a'' then [CHR 0x07]
      else if c = CHR ''b'' then [CHR 0x08]
      else if c = CHR ''f'' then [CHR 0x0C]
      else if c = CHR ''v'' then [CHR 0x0B]
      else [])"

text \<open>What a character starts when no token is open.\<close>

datatype start_action = Skip | Emit token | BeginStr char | BeginAtom | Bad

definition start_char :: "char \<Rightarrow> start_action" where
  "start_char c =
     (if c = CHR '' '' \<or> c = CHR 0x09 then Skip
      else if c = CHR ''['' then Emit LBrack
      else if c = CHR '']'' then Emit RBrack
      else if c = CHR ''('' then Emit LParen
      else if c = CHR '')'' then Emit RParen
      else if c = CHR '','' then Emit Comma
      else if c = squote \<or> c = dquote then BeginStr c
      else if is_atom_char c then BeginAtom
      else Bad)"

fun scan :: "lex_state \<Rightarrow> string \<Rightarrow> token list option" where
  "scan Start [] = Some []"
| "scan (InAtom a) [] = Some [TAtom a]"
| "scan (InStr q acc) [] = None"
| "scan (InEsc q acc) [] = None"
| "scan (InHex1 q acc) [] = None"
| "scan (InHex2 q acc h) [] = None"
| "scan Start (c # cs) =
     (case start_char c of
        Skip \<Rightarrow> scan Start cs
      | Emit t \<Rightarrow> map_option (Cons t) (scan Start cs)
      | BeginStr q \<Rightarrow> scan (InStr q []) cs
      | BeginAtom \<Rightarrow> scan (InAtom [c]) cs
      | Bad \<Rightarrow> None)"
| "scan (InAtom a) (c # cs) =
     (if is_atom_char c then scan (InAtom (a @ [c])) cs
      else (case start_char c of
              Skip \<Rightarrow> map_option (Cons (TAtom a)) (scan Start cs)
            | Emit t \<Rightarrow> map_option (\<lambda>ts. TAtom a # t # ts) (scan Start cs)
            | _ \<Rightarrow> None))"
| "scan (InStr q acc) (c # cs) =
     (if c = q then map_option (Cons (TStr acc)) (scan Start cs)
      else if c = backslash then scan (InEsc q acc) cs
      else if c = CHR 0x0A then None
      else scan (InStr q (acc @ [c])) cs)"
| "scan (InEsc q acc) (c # cs) =
     (if c = CHR ''x'' then scan (InHex1 q acc) cs
      else if escape_char c = [] then None
      else scan (InStr q (acc @ escape_char c)) cs)"
| "scan (InHex1 q acc) (c # cs) =
     (case hex_value c of
        None \<Rightarrow> None
      | Some h \<Rightarrow> scan (InHex2 q acc h) cs)"
| "scan (InHex2 q acc h) (c # cs) =
     (case hex_value c of
        None \<Rightarrow> None
      | Some l \<Rightarrow> scan (InStr q (acc @ [char_of (16 * h + l)])) cs)"

text \<open>The tokens of one triple, a string and two atoms, and the tokens after it.\<close>

definition take_tuple :: "token list \<Rightarrow> ((string \<times> string \<times> string) \<times> token list) option" where
  "take_tuple ts =
     (case ts of
        LParen # ts1 \<Rightarrow>
          (case ts1 of
             TStr s # ts2 \<Rightarrow>
               (case ts2 of
                  Comma # ts3 \<Rightarrow>
                    (case ts3 of
                       TAtom a # ts4 \<Rightarrow>
                         (case ts4 of
                            Comma # ts5 \<Rightarrow>
                              (case ts5 of
                                 TAtom b # ts6 \<Rightarrow>
                                   (case ts6 of
                                      RParen # rest \<Rightarrow> Some ((s, a, b), rest)
                                    | _ \<Rightarrow> None)
                               | _ \<Rightarrow> None)
                          | _ \<Rightarrow> None)
                     | _ \<Rightarrow> None)
                | _ \<Rightarrow> None)
           | _ \<Rightarrow> None)
      | _ \<Rightarrow> None)"

text \<open>The triples of a list display after its opening bracket.\<close>

function parse_tuples :: "token list \<Rightarrow> (string \<times> string \<times> string) list option" where
  "parse_tuples ts =
     (case take_tuple ts of
        None \<Rightarrow> None
      | Some (it, rest) \<Rightarrow>
          (if rest = [RBrack] then Some [it]
           else (case rest of
                   Comma # rest' \<Rightarrow> map_option (Cons it) (parse_tuples rest')
                 | _ \<Rightarrow> None)))"
  by pat_completeness auto
termination
  by (relation "measure length")
     (auto simp: take_tuple_def split: list.splits token.splits)

declare parse_tuples.simps [simp del]

definition parse_items :: "token list \<Rightarrow> (string \<times> string \<times> string) list option" where
  "parse_items ts =
     (case ts of
        LBrack # rest \<Rightarrow> (if rest = [RBrack] then Some [] else parse_tuples rest)
      | _ \<Rightarrow> None)"

text \<open>
  An atom is a number when it is a numeric expression, and otherwise a name when it is an
  identifier, possibly signed. Names are taken to be unbound, as \<^verbatim>\<open>inf\<close> and \<^verbatim>\<open>nan\<close>
  are: evaluating one is a \<^verbatim>\<open>NameError\<close>, raised once the whole text has parsed.
\<close>

datatype 'f atom = Num 'f | Name string

definition is_name :: "string \<Rightarrow> bool" where
  "is_name a =
     (let b = dropWhile (\<lambda>c. c = CHR ''+'' \<or> c = CHR ''-'') a
      in (case b of
            [] \<Rightarrow> False
          | c # cs \<Rightarrow> is_alpha c \<and> list_all (\<lambda>c. is_alpha c \<or> is_digit c) cs))"

definition atom_of :: "'f float_ops \<Rightarrow> string \<Rightarrow> 'f atom option" where
  "atom_of ops a =
     (case f_literal ops a of
        Some x \<Rightarrow> Some (Num x)
      | None \<Rightarrow> if is_name a then Some (Name a) else None)"

definition triple_of ::
  "'f float_ops \<Rightarrow> string \<times> string \<times> string \<Rightarrow> (string \<times> 'f atom \<times> 'f atom) option"
where
  "triple_of ops t =
     (case t of (s, a, b) \<Rightarrow>
        (case atom_of ops a of
           None \<Rightarrow> None
         | Some qa \<Rightarrow>
             (case atom_of ops b of
                None \<Rightarrow> None
              | Some pa \<Rightarrow> Some (s, qa, pa))))"

fun eval_triples :: "(string \<times> 'f atom \<times> 'f atom) list \<Rightarrow> exn + 'f item list" where
  "eval_triples [] = Inr []"
| "eval_triples ((s, Num q, Num p) # ts) =
     (case eval_triples ts of
        Inl e \<Rightarrow> Inl e
      | Inr its \<Rightarrow> Inr ((s, q, p) # its))"
| "eval_triples ((s, _, _) # ts) = Inl NameError"

definition eval_text :: "'f float_ops \<Rightarrow> string \<Rightarrow> exn + 'f item list" where
  "eval_text ops text =
     (case scan Start text of
        None \<Rightarrow> Inl SyntaxError
      | Some ts \<Rightarrow>
          (case parse_items ts of
             None \<Rightarrow> Inl SyntaxError
           | Some raw \<Rightarrow>
               (case those (map (triple_of ops) raw) of
                  None \<Rightarrow> Inl SyntaxError
                | Some triples \<Rightarrow> eval_triples triples)))"

text \<open>\<^verbatim>\<open>eval(v)\<close> on an object read from the store: only a string can be evaluated.\<close>

definition eval_items :: "'f float_ops \<Rightarrow> 'f pyval \<Rightarrow> exn + 'f item list" where
  "eval_items ops v = (case v of PStr text \<Rightarrow> eval_text ops text | _ \<Rightarrow> Inl TypeError)"

section \<open>The Document Renderer\<close>


text \<open>
  The viewer and \<^verbatim>\<open>print_invoice\<close> take the evaluator as the parameter \<open>ev\<close>: it stands for
  \<^verbatim>\<open>eval\<close> on the stored object followed by the unpacking of every element as
  \<^verbatim>\<open>(desc, qty, price)\<close>, a string and two floats, as \<^verbatim>\<open>save_invoice\<close> stores them.
\<close>









section \<open>An interpretation of the float environment\<close>

text \<open>
  Exact decimal arithmetic over the rationals: texts and literals are decimal numerals
  with an optional sign, and a number is printed with its decimals (sixteen at most). It
  agrees with Python on the amounts of the examples below, and serves to run the
  definitions on concrete inputs.
\<close>

fun nat_of_digits :: "nat \<Rightarrow> string \<Rightarrow> nat option" where
  "nat_of_digits acc [] = Some acc"
| "nat_of_digits acc (c # cs) =
     (if is_digit c then nat_of_digits (10 * acc + (of_char c - 48)) cs else None)"

definition unsigned_decimal :: "bool \<Rightarrow> string \<Rightarrow> rat option" where
  "unsigned_decimal need_point s =
     (let ip = takeWhile is_digit s; r = dropWhile is_digit s
      in if ip = [] then None
         else (case r of
                 [] \<Rightarrow> if need_point then None else map_option of_nat (nat_of_digits 0 ip)
               | c # fp \<Rightarrow>
                   if c = CHR ''.'' \<and> fp \<noteq> [] then
                     (case (nat_of_digits 0 ip, nat_of_digits 0 fp) of
                        (Some i, Some f) \<Rightarrow> Some (of_nat i + of_nat f / 10 ^ length fp)
                      | _ \<Rightarrow> None)
                   else None))"

definition decimal :: "bool \<Rightarrow> string \<Rightarrow> rat option" where
  "decimal need_point s =
     (case s of
        [] \<Rightarrow> None
      | c # cs \<Rightarrow>
          if c = CHR ''-'' then map_option uminus (unsigned_decimal need_point cs)
          else unsigned_decimal need_point s)"

fun frac_digits :: "nat \<Rightarrow> rat \<Rightarrow> string" where
  "frac_digits 0 x = []"
| "frac_digits (Suc n) x =
     (if x = 0 then []
      else digit_char (nat \<lfloor>x * 10\<rfloor>) # frac_digits n (x * 10 - of_int \<lfloor>x * 10\<rfloor>))"

definition decimal_repr :: "rat \<Rightarrow> string" where
  "decimal_repr x =
     (let a = \<bar>x\<bar>; i = \<lfloor>a\<rfloor>; f = a - of_int i
      in (if x < 0 then ''-'' else []) @ str_nat (nat i) @ ''.''
         @ (if f = 0 then ''0'' else frac_digits 16 f))"

definition decimal_fixed2 :: "rat \<Rightarrow> string" where
  "decimal_fixed2 x =
     (let n = nat \<lfloor>\<bar>x\<bar> * 100 + 1 / 2\<rfloor>
      in (if x < 0 then ''-'' else []) @ str_nat (n div 100) @ ''.''
         @ [digit_char (n mod 100 div 10), digit_char (n mod 10)])"

definition exact_ops :: "rat float_ops" where
  "exact_ops =
     \<lparr>f_add = (+), f_mul = (*), f_div = (/), f_of_int = of_int,
      f_parse = decimal False, f_repr = decimal_repr, f_fixed2 = decimal_fixed2,
      f_truth = (\<lambda>x. x \<noteq> 0), f_literal = decimal True, f_isnan = (\<lambda>x. False)\<rparr>"

section \<open>An interpretation with the special values of IEEE\<close>

text \<open>
  The exact interpretation extended by the two infinities and by NaN, with the arithmetic
  of IEEE on them: \<^verbatim>\<open>float\<close> reads \<^verbatim>\<open>inf\<close>, \<^verbatim>\<open>-inf\<close> and \<^verbatim>\<open>nan\<close>, and \<^verbatim>\<open>repr\<close> prints
  them so. A division by zero, which the program never makes, is left as it is in HOL.
\<close>

datatype xfloat = Finite rat | PosInf | NegInf | NaN

definition x_sign :: "xfloat \<Rightarrow> int" where
  "x_sign a = (case a of Finite x \<Rightarrow> (if x < 0 then - 1 else if x = 0 then 0 else 1)
               | PosInf \<Rightarrow> 1 | NegInf \<Rightarrow> - 1 | NaN \<Rightarrow> 0)"

definition x_inf :: "int \<Rightarrow> xfloat" where
  "x_inf s = (if s = 0 then NaN else if 0 < s then PosInf else NegInf)"

fun x_add :: "xfloat \<Rightarrow> xfloat \<Rightarrow> xfloat" where
  "x_add NaN b = NaN"
| "x_add a NaN = NaN"
| "x_add (Finite x) (Finite y) = Finite (x + y)"
| "x_add (Finite x) b = b"
| "x_add a (Finite y) = a"
| "x_add a b = (if a = b then a else NaN)"

fun x_mul :: "xfloat \<Rightarrow> xfloat \<Rightarrow> xfloat" where
  "x_mul NaN b = NaN"
| "x_mul a NaN = NaN"
| "x_mul (Finite x) (Finite y) = Finite (x * y)"
| "x_mul a b = x_inf (x_sign a * x_sign b)"

fun x_div :: "xfloat \<Rightarrow> xfloat \<Rightarrow> xfloat" where
  "x_div NaN b = NaN"
| "x_div a NaN = NaN"
| "x_div (Finite x) (Finite y) = Finite (x / y)"
| "x_div (Finite x) b = Finite 0"
| "x_div a (Finite y) = x_inf (x_sign a * x_sign (Finite y))"
| "x_div a b = NaN"

definition x_parse :: "string \<Rightarrow> xfloat option" where
  "x_parse s =
     (if s = ''inf'' then Some PosInf
      else if s = ''-inf'' then Some NegInf
      else if s = ''nan'' then Some NaN
      else map_option Finite (decimal False s))"

definition x_print :: "(rat \<Rightarrow> string) \<Rightarrow> xfloat \<Rightarrow> string" where
  "x_print f a =
     (case a of Finite x \<Rightarrow> f x | PosInf \<Rightarrow> ''inf'' | NegInf \<Rightarrow> ''-inf'' | NaN \<Rightarrow> ''nan'')"

definition ieee_ops :: "xfloat float_ops" where
  "ieee_ops =
     \<lparr>f_add = x_add, f_mul = x_mul, f_div = x_div, f_of_int = (\<lambda>i. Finite (of_int i)),
      f_parse = x_parse, f_repr = x_print decimal_repr, f_fixed2 = x_print decimal_fixed2,
      f_truth = (\<lambda>a. a \<noteq> Finite 0), f_literal = (\<lambda>s. map_option Finite (decimal True s)),
      f_isnan = (\<lambda>a. a = NaN)\<rparr>"

section \<open>Notions of the specification\<close>

text \<open>
  A grid row is valid when its three cells are present and both the quantity and the unit
  price parse as numbers; the line item of a valid row holds the description text and the
  two parsed numbers.
\<close>

definition valid_row :: "'f float_ops \<Rightarrow> grid_row \<Rightarrow> bool" where
  "valid_row ops r =
     (case r of
        (Some d, Some q, Some p) \<Rightarrow> f_parse ops q \<noteq> None \<and> f_parse ops p \<noteq> None
      | _ \<Rightarrow> False)"

definition item_of_row :: "'f float_ops \<Rightarrow> grid_row \<Rightarrow> 'f item" where
  "item_of_row ops r =
     (case r of (d, q, p) \<Rightarrow> (the d, the (f_parse ops (the q)), the (f_parse ops (the p))))"

definition retained_items :: "'f float_ops \<Rightarrow> grid_row list \<Rightarrow> 'f item list" where
  "retained_items ops grid = map (item_of_row ops) (filter (valid_row ops) grid)"

text \<open>The sum of \<open>quantity * unit_price\<close> over the items, added from the left onto \<^verbatim>\<open>0.0\<close>.\<close>

definition sum_amounts :: "'f float_ops \<Rightarrow> 'f item list \<Rightarrow> 'f" where
  "sum_amounts ops items =
     foldl (\<lambda>s it. case it of (d, q, p) \<Rightarrow> f_add ops s (f_mul ops q p)) (f_of_int ops 0) items"

text \<open>The tax rate: the number the text parses to, and 0 when it is blank or does not parse.\<close>

definition effective_rate :: "'f float_ops \<Rightarrow> string \<Rightarrow> 'f" where
  "effective_rate ops tax_text =
     (if tax_text = [] then f_of_int ops 0
      else (case f_parse ops tax_text of None \<Rightarrow> f_of_int ops 0 | Some r \<Rightarrow> r))"

text \<open>The columns that the migration adds when they are absent.\<close>

definition migration_columns :: "(string \<times> string) list" where
  "migration_columns =
     [(''date_added'', ''TEXT''), (''date'', ''TEXT''),
      (''client_address'', ''TEXT''), (''client_number'', ''TEXT'')]"

definition missing_columns :: "'f sql_table \<Rightarrow> (string \<times> string) list" where
  "missing_columns t = filter (\<lambda>c. fst c \<notin> set (column_names t)) migration_columns"

text \<open>
  The invoice numbers of the rows of a table, and how many rows of the store carry a given
  number.
\<close>

definition invoice_numbers :: "'f sql_table \<Rightarrow> 'f pyval list" where
  "invoice_numbers t =
     map (\<lambda>r. case cell_of (t_columns t) r ''invoice_number'' of Some v \<Rightarrow> v | None \<Rightarrow> PNone)
       (t_rows t)"

definition number_count :: "'f world \<Rightarrow> string \<Rightarrow> nat" where
  "number_count w number =
     (case db w of
        None \<Rightarrow> 0
      | Some t \<Rightarrow> length (filter (\<lambda>v. v = PStr number) (invoice_numbers t)))"

text \<open>
  A store in order: the table has the columns of the schema, \<^verbatim>\<open>invoice_number\<close> is declared
  \<^verbatim>\<open>UNIQUE\<close>, every row has one value for each column, and no invoice number other than
  \<^verbatim>\<open>NULL\<close> occurs twice. The table that \<^verbatim>\<open>init_db\<close> creates is in order, and
  \<^verbatim>\<open>save_invoice\<close> keeps a store in order.
\<close>

definition store_ok :: "'f sql_table \<Rightarrow> bool" where
  "store_ok t \<longleftrightarrow>
     set (map col_name invoices_schema) \<subseteq> set (column_names t)
     \<and> (\<exists>c \<in> set (t_columns t). col_name c = ''invoice_number'' \<and> col_unique c)
     \<and> (\<forall>r \<in> set (t_rows t). length r = length (t_columns t))
     \<and> distinct (filter (\<lambda>v. v \<noteq> PNone) (invoice_numbers t))"

text \<open>
  A form that passes the checks of \<^verbatim>\<open>save_invoice\<close>: the three required fields are not
  blank and the grid has a valid row.
\<close>

definition form_valid :: "'f float_ops \<Rightarrow> form \<Rightarrow> bool" where
  "form_valid ops fm \<longleftrightarrow>
     py_strip (invoice_number fm) \<noteq> [] \<and> py_strip (client_name fm) \<noteq> []
     \<and> py_strip (description fm) \<noteq> [] \<and> filter (valid_row ops) (table fm) \<noteq> []"

text \<open>The invoice date that \<^verbatim>\<open>save_invoice\<close> submits: the stripped text, or today when blank.\<close>

definition submitted_date :: "string \<Rightarrow> form \<Rightarrow> string" where
  "submitted_date today fm = (if py_strip (date fm) = [] then today else py_strip (date fm))"
























text \<open>
  \<^verbatim>\<open>repr\<close> prints a float as one atom, a nonempty run of digits, letters, points and
  signs. The float is numeric when that atom is a numeric literal that \<^verbatim>\<open>eval\<close> reads
  back as the same float. For the floats of Python these are the finite ones: \<^verbatim>\<open>inf\<close>
  and \<^verbatim>\<open>nan\<close> print as names. A sequence of line items is valid when its quantities and
  unit prices are numeric; the description is any string.
\<close>

definition atomic :: "'f float_ops \<Rightarrow> 'f \<Rightarrow> bool" where
  "atomic ops x \<longleftrightarrow> f_repr ops x \<noteq> [] \<and> list_all is_atom_char (f_repr ops x)"

definition numeric :: "'f float_ops \<Rightarrow> 'f \<Rightarrow> bool" where
  "numeric ops x \<longleftrightarrow> atomic ops x \<and> f_literal ops (f_repr ops x) = Some x"

definition valid_items :: "'f float_ops \<Rightarrow> 'f item list \<Rightarrow> bool" where
  "valid_items ops items = list_all (\<lambda>it. numeric ops (fst (snd it)) \<and> numeric ops (snd (snd it))) items"

text \<open>The tokens of the text that \<^verbatim>\<open>str\<close> writes for an item and for a sequence of items.\<close>

definition raw_item :: "'f float_ops \<Rightarrow> 'f item \<Rightarrow> string \<times> string \<times> string" where
  "raw_item ops it = (case it of (d, q, p) \<Rightarrow> (d, f_repr ops q, f_repr ops p))"

definition item_tokens :: "'f float_ops \<Rightarrow> 'f item \<Rightarrow> token list" where
  "item_tokens ops it =
     (case it of (d, q, p) \<Rightarrow>
        [LParen, TStr d, Comma, TAtom (f_repr ops q), Comma, TAtom (f_repr ops p), RParen])"

fun tuple_tokens :: "'f float_ops \<Rightarrow> 'f item list \<Rightarrow> token list" where
  "tuple_tokens ops [] = []"
| "tuple_tokens ops [it] = item_tokens ops it"
| "tuple_tokens ops (it # it' # its) = item_tokens ops it @ Comma # tuple_tokens ops (it' # its)"

section \<open>Examples\<close>

text \<open>
  An item grid with two valid rows, one row whose quantity is not a number, one row with
  a cell missing and one empty row.
\<close>

definition example_grid :: "grid_row list" where
  "example_grid =
     [(Some ''Labor'', Some ''10'', Some ''50.0''),
      (Some ''Materials'', Some ''5'', Some ''20.0''),
      (Some ''Paint'', Some ''two'', Some ''9.5''),
      (Some ''Nails'', None, Some ''0.1''),
      (None, None, None)]"

text \<open>
  A table left by an earlier version of the program, before the columns \<^verbatim>\<open>date\<close>,
  \<^verbatim>\<open>client_address\<close> and \<^verbatim>\<open>client_number\<close> existed, with one invoice.
\<close>

definition legacy_table :: "rat sql_table" where
  "legacy_table =
     \<lparr>t_columns =
        [Column ''id'' ''INTEGER'' True,
         Column ''invoice_number'' ''TEXT'' True,
         Column ''client_name'' ''TEXT'' False,
         Column ''description'' ''TEXT'' False,
         Column ''items'' ''TEXT'' False,
         Column ''subtotal'' ''REAL'' False,
         Column ''tax'' ''REAL'' False,
         Column ''total'' ''REAL'' False,
         Column ''email'' ''TEXT'' False,
         Column ''company_name'' ''TEXT'' False,
         Column ''company_address'' ''TEXT'' False,
         Column ''company_contact'' ''TEXT'' False,
         Column ''date_added'' ''TEXT'' False],
      t_rows =
        [[PInt 1, PStr ''INV-001'', PStr ''Acme Ltd'', PStr ''Roof repair'',
          PStr ''[('Labor', 10.0, 50.0)]'', PFloat 500, PFloat 65, PFloat 565,
          PStr ''pay@acme.test'', PStr ''BuildSmart Construction Inc.'',
          PStr ''123 Innovation Blvd, Suite 500'', PStr ''Toronto, ON'',
          PStr ''2025-01-05 09:30:00'']],
      t_seq = 1\<rparr>"

text \<open>
  A new invoice entered in the form, the world after \<^verbatim>\<open>init_db\<close> on an empty database
  file, and the world once the invoice is saved on 2025-01-05 at 09:30.
\<close>

definition example_form :: form where
  "example_form =
     \<lparr>edit_mode = False,
      company_name = ''BuildSmart Construction Inc.'',
      company_address = ''123 Innovation Blvd, Suite 500'',
      company_contact = ''Toronto, ON M1X 1A1'',
      invoice_number = '' INV-001 '',
      client_name = ''Acme Ltd'',
      client_address = ''12 King St'',
      client_number = ''555-0100'',
      description = ''Roof repair'',
      table = example_grid,
      tax_input = ''13'',
      email = ''pay@acme.test'',
      date = ''2025-01-05''\<rparr>"

definition fresh_world :: "rat world" where
  "fresh_world =
     \<lparr>db = Some \<lparr>t_columns = invoices_schema, t_rows = [], t_seq = 0\<rparr>, files = []\<rparr>"

definition saved_world :: "rat world" where
  "saved_world =
     fst (save_invoice exact_ops ''2025-01-05'' ''2025-01-05 09:30:00'' example_form fresh_world)"

text \<open>The row that the store then holds, in the order of the columns of the schema.\<close>

definition saved_row :: "rat pyval list" where
  "saved_row =
     [PInt 1, PStr ''INV-001'', PStr ''Acme Ltd'', PStr ''12 King St'', PStr ''555-0100'',
      PStr ''Roof repair'', PStr ''[('Labor', 10.0, 50.0), ('Materials', 5.0, 20.0)]'',
      PFloat 600, PFloat 78, PFloat 678, PStr ''pay@acme.test'',
      PStr ''BuildSmart Construction Inc.'', PStr ''123 Innovation Blvd, Suite 500'',
      PStr ''Toronto, ON M1X 1A1'', PStr ''2025-01-05 09:30:00'', PStr ''2025-01-05'']"

text \<open>
  The same invoice edited on 2025-03-01: eight hours of labour and nothing else, and the
  invoice date moved to 2025-02-20.
\<close>

definition edited_form :: form where
  "edited_form =
     example_form\<lparr>edit_mode := True,
                  table := [(Some ''Labor'', Some ''8'', Some ''50.0'')],
                  date := ''2025-02-20''\<rparr>"

definition edited_world :: "rat world" where
  "edited_world =
     fst (save_invoice exact_ops ''2025-03-01'' ''2025-03-01 08:00:00'' edited_form saved_world)"

text \<open>The row of the store after the edit.\<close>

definition edited_row :: "rat pyval list" where
  "edited_row =
     [PInt 1, PStr ''INV-001'', PStr ''Acme Ltd'', PStr ''12 King St'', PStr ''555-0100'',
      PStr ''Roof repair'', PStr ''[('Labor', 8.0, 50.0)]'',
      PFloat 400, PFloat 52, PFloat 452, PStr ''pay@acme.test'',
      PStr ''BuildSmart Construction Inc.'', PStr ''123 Innovation Blvd, Suite 500'',
      PStr ''Toronto, ON M1X 1A1'', PStr ''2025-02-20'', PStr ''2025-01-05'']"

text \<open>The record that \<^verbatim>\<open>open_invoice_details\<close> reads from the earlier table.\<close>

definition legacy_record :: "rat dict" where
  "legacy_record =
     [(''id'', PInt 1), (''invoice_number'', PStr ''INV-001''),
      (''client_name'', PStr ''Acme Ltd''), (''description'', PStr ''Roof repair''),
      (''items'', PStr ''[('Labor', 10.0, 50.0)]''), (''subtotal'', PFloat 500),
      (''tax'', PFloat 65), (''total'', PFloat 565), (''email'', PStr ''pay@acme.test''),
      (''company_name'', PStr ''BuildSmart Construction Inc.''),
      (''company_address'', PStr ''123 Innovation Blvd, Suite 500''),
      (''company_contact'', PStr ''Toronto, ON'')]"



text \<open>Line items whose first description holds both quotes, a comma and brackets.\<close>

definition tricky_items :: "rat item list" where
  "tricky_items = [(''Joe's \"deck\", 2 (of 3)]'', 10, 50), (''Materials'', 5, 20)]"









section \<open>Evaluating the examples\<close>

lemma str_nat_digit: "n < 10 \<Longrightarrow> str_nat n = [digit_char n]"
  by (simp add: str_nat.simps)

lemma str_nat_more: "\<not> n < 10 \<Longrightarrow> str_nat n = str_nat (n div 10) @ [digit_char (n mod 10)]"
  by (subst str_nat.simps) simp

lemma floor_numeral_div: "\<lfloor>(numeral a :: rat) / numeral b\<rfloor> = numeral a div numeral b"
  using floor_divide_of_int_eq [of "numeral a" "numeral b", where ?'a = rat] by simp

lemmas eval_simps =
  str_nat_digit str_nat_more digit_char_def decimal_fixed2_def decimal_repr_def Let_def
  exact_ops_def decimal_def unsigned_decimal_def is_digit_def floor_numeral_div


lemma isnan_exact: "f_isnan exact_ops x = False"
  by (simp add: exact_ops_def)

lemmas scan_simps =
  start_char_def is_atom_char_def is_digit_def is_alpha_def squote_def dquote_def backslash_def
  escape_char_def hex_value_def Let_def

section \<open>Properties of the Totals Calculator\<close>

lemma row_step_eq:
  "row_step ops r st =
     Inr (if valid_row ops r
          then (case item_of_row ops r of (d, q, p) \<Rightarrow>
                  (f_add ops (fst st) (f_mul ops q p), snd st @ [item_of_row ops r]))
          else st)"
  by (auto simp: row_step_def row_try_def py_float_def valid_row_def item_of_row_def Let_def
           split: prod.splits option.splits sum.splits exn.splits)

lemma totals_loop_eq:
  "totals_loop ops rs st =
     Inr (foldl (\<lambda>s it. case it of (d, q, p) \<Rightarrow> f_add ops s (f_mul ops q p)) (fst st)
            (retained_items ops rs),
          snd st @ retained_items ops rs)"
  by (induction rs arbitrary: st) (simp_all add: row_step_eq retained_items_def split: prod.splits)

lemma tax_rate_of_eq: "tax_rate_of ops tax_text = Inr (effective_rate ops tax_text)"
  by (simp add: tax_rate_of_def effective_rate_def py_float_def split: option.splits)

lemma retained_example:
  "retained_items exact_ops example_grid = [(''Labor'', 10, 50), (''Materials'', 5, 20)]"
  by code_simp

lemma valid_rows_example:
  "filter (valid_row exact_ops) example_grid
     = [(Some ''Labor'', Some ''10'', Some ''50.0''), (Some ''Materials'', Some ''5'', Some ''20.0'')]"
  by code_simp

lemma calculate_totals_closed:
  "calculate_totals ops grid tax_text =
     (let items = retained_items ops grid;
          subtotal = sum_amounts ops items;
          tax = f_mul ops subtotal (f_div ops (effective_rate ops tax_text) (f_of_int ops 100))
      in Inr (items, subtotal, tax, f_add ops subtotal tax))"
  by (simp add: calculate_totals_def totals_loop_eq tax_rate_of_eq sum_amounts_def Let_def)

lemma totals_example:
  "calculate_totals exact_ops example_grid ''13''
     = Inr ([(''Labor'', 10, 50), (''Materials'', 5, 20)], 600, 78, 678)"
  unfolding calculate_totals_closed retained_example
  by (simp add: sum_amounts_def effective_rate_def exact_ops_def decimal_def
        unsigned_decimal_def is_digit_def)

text \<open>
  C1. For every item grid and every tax text, \<^verbatim>\<open>calculate_totals\<close> returns the retained
  valid items, the subtotal that is the sum of \<open>quantity * unit_price\<close> over exactly those
  items, the tax \<open>subtotal * (tax_rate / 100)\<close> and the total \<open>subtotal + tax\<close>.
\<close>

theorem calculate_totals_sums:
  "calculate_totals ops grid tax_text =
     (let items = retained_items ops grid;
          subtotal = sum_amounts ops items;
          tax = f_mul ops subtotal (f_div ops (effective_rate ops tax_text) (f_of_int ops 100))
      in Inr (items, subtotal, tax, f_add ops subtotal tax))"
  by (rule calculate_totals_closed)

theorem calculate_totals_sums_witness:
  "calculate_totals exact_ops example_grid ''13''
     = Inr ([(''Labor'', 10, 50), (''Materials'', 5, 20)], 600, 78, 678)"
  unfolding calculate_totals_sums retained_example
  by (simp add: sum_amounts_def effective_rate_def exact_ops_def decimal_def
        unsigned_decimal_def is_digit_def)

text \<open>
  C7. For every item grid, \<^verbatim>\<open>calculate_totals\<close> returns a result and never an exception.
  The items it returns are those of exactly the valid rows (three cells present, quantity
  and unit price both numbers), in their order; the subtotal is the sum of
  \<open>quantity * unit_price\<close> over the valid rows alone, added from the left onto \<^verbatim>\<open>0.0\<close>, the
  tax is \<open>subtotal * (tax_rate / 100)\<close> and the total \<open>subtotal + tax\<close>; a row that is not
  valid changes nothing, wherever it stands in the grid.
\<close>

theorem calculate_totals_lenient:
  "calculate_totals ops grid tax_text =
     (let items = map (item_of_row ops) (filter (valid_row ops) grid);
          subtotal = sum_amounts ops items;
          tax = f_mul ops subtotal (f_div ops (effective_rate ops tax_text) (f_of_int ops 100))
      in Inr (items, subtotal, tax, f_add ops subtotal tax))
   \<and> (\<forall>before r after. \<not> valid_row ops r \<longrightarrow>
          calculate_totals ops (before @ r # after) tax_text
            = calculate_totals ops (before @ after) tax_text)"
  by (simp add: calculate_totals_closed retained_items_def Let_def)

theorem calculate_totals_lenient_witness:
  "calculate_totals exact_ops example_grid ''13''
     = Inr ([(''Labor'', 10, 50), (''Materials'', 5, 20)], 600, 78, 678)
   \<and> calculate_totals exact_ops
         ([(Some ''Labor'', Some ''10'', Some ''50.0'')]
          @ (Some ''Paint'', Some ''two'', Some ''9.5'')
          # [(Some ''Materials'', Some ''5'', Some ''20.0'')]) ''13''
       = calculate_totals exact_ops
           ([(Some ''Labor'', Some ''10'', Some ''50.0'')]
            @ [(Some ''Materials'', Some ''5'', Some ''20.0'')]) ''13''"
proof -
  have bad: "\<not> valid_row exact_ops (Some ''Paint'', Some ''two'', Some ''9.5'')"
    by (simp add: valid_row_def exact_ops_def decimal_def unsigned_decimal_def is_digit_def)
  have items: "map (item_of_row exact_ops) (filter (valid_row exact_ops) example_grid)
                 = [(''Labor'', 10, 50), (''Materials'', 5, 20)]"
    unfolding valid_rows_example
    by (simp add: item_of_row_def exact_ops_def decimal_def unsigned_decimal_def is_digit_def)
  from calculate_totals_lenient [of exact_ops example_grid "''13''", THEN conjunct1]
  have "calculate_totals exact_ops example_grid ''13''
          = Inr ([(''Labor'', 10, 50), (''Materials'', 5, 20)], 600, 78, 678)"
    unfolding items
    by (simp add: sum_amounts_def effective_rate_def exact_ops_def decimal_def
          unsigned_decimal_def is_digit_def)
  moreover note calculate_totals_lenient [of exact_ops _ "''13''", THEN conjunct2, rule_format,
      OF bad, of "[(Some ''Labor'', Some ''10'', Some ''50.0'')]"
                 "[(Some ''Materials'', Some ''5'', Some ''20.0'')]"]
  ultimately show ?thesis by (rule conjI)
qed

section \<open>Properties of the Schema Migrator\<close>

lemma add_columns_eq:
  "distinct (map fst cs) \<Longrightarrow>
   add_columns t cs =
     Inr (t\<lparr>t_columns := t_columns t @ map (\<lambda>c. Column (fst c) (snd c) False)
                                            (filter (\<lambda>c. fst c \<notin> set (column_names t)) cs),
            t_rows := map (\<lambda>r. r @ replicate (length (filter (\<lambda>c. fst c \<notin> set (column_names t)) cs)) PNone)
                        (t_rows t)\<rparr>)"
proof (induction cs arbitrary: t)
  case Nil
  then show ?case by simp
next
  case (Cons c cs)
  obtain col ty where c: "c = (col, ty)" by (cases c)
  show ?case
  proof (cases "col \<in> set (column_names t)")
    case True
    with Cons c show ?thesis by (simp add: alter_table_add_column_def)
  next
    case False
    let ?t' = "t\<lparr>t_columns := t_columns t @ [Column col ty False],
                  t_rows := map (\<lambda>r. r @ [PNone]) (t_rows t)\<rparr>"
    have names: "column_names ?t' = column_names t @ [col]"
      by (simp add: column_names_def)
    have filt: "filter (\<lambda>c. fst c \<notin> set (column_names ?t')) cs
                  = filter (\<lambda>c. fst c \<notin> set (column_names t)) cs"
      using Cons.prems c by (auto simp: names intro!: filter_cong)
    from Cons.prems have "distinct (map fst cs)" by simp
    from Cons.IH[OF this, of ?t'] False c show ?thesis
      by (simp add: alter_table_add_column_def filt replicate_app_Cons_same o_def)
  qed
qed

lemma init_db_Some:
  "init_db (Some t0) =
     Inr (Some (t0\<lparr>t_columns := t_columns t0 @ map (\<lambda>c. Column (fst c) (snd c) False) (missing_columns t0),
                     t_rows := map (\<lambda>r. r @ replicate (length (missing_columns t0)) PNone) (t_rows t0)\<rparr>))"
proof -
  have "distinct (map fst migration_columns)" by (simp add: migration_columns_def)
  from add_columns_eq[OF this, of t0] show ?thesis
    by (simp add: init_db_def create_table_if_not_exists_def missing_columns_def
          migration_columns_def)
qed

lemma init_db_noop: "missing_columns t = [] \<Longrightarrow> init_db (Some t) = Inr (Some t)"
  by (simp add: init_db_Some)

lemma missing_after:
  "missing_columns (t0\<lparr>t_columns := t_columns t0 @ map (\<lambda>c. Column (fst c) (snd c) False) (missing_columns t0),
                        t_rows := rs\<rparr>) = []"
  by (auto simp: missing_columns_def column_names_def filter_empty_conv image_iff)

lemma missing_fresh:
  "missing_columns \<lparr>t_columns = invoices_schema, t_rows = [], t_seq = 0\<rparr> = []"
  by (simp add: missing_columns_def column_names_def invoices_schema_def migration_columns_def)

lemma init_db_None:
  "init_db None = Inr (Some \<lparr>t_columns = invoices_schema, t_rows = [], t_seq = 0\<rparr>)"
proof -
  have "init_db None = init_db (Some \<lparr>t_columns = invoices_schema, t_rows = [], t_seq = 0\<rparr>)"
    by (simp only: init_db_def create_table_if_not_exists_def option.case)
  then show ?thesis
    by (simp only: init_db_noop[OF missing_fresh])
qed

text \<open>
  C9. The schema migration is idempotent. \<^verbatim>\<open>init_db\<close> never fails; on an absent table it
  creates the table of the schema; on an existing table it appends exactly the migration
  columns that are missing, leaves the declared columns, the rows and their values as they
  are (a row reads \<^verbatim>\<open>NULL\<close> in a new column), and is a no-op when none is missing; run on
  its own result it changes nothing.
\<close>

theorem init_db_idempotent:
  "\<exists>t. init_db store = Inr (Some t)
       \<and> init_db (Some t) = Inr (Some t)
       \<and> (case store of
             None \<Rightarrow> t = \<lparr>t_columns = invoices_schema, t_rows = [], t_seq = 0\<rparr>
           | Some t0 \<Rightarrow>
               t = t0\<lparr>t_columns := t_columns t0
                                      @ map (\<lambda>c. Column (fst c) (snd c) False) (missing_columns t0),
                      t_rows := map (\<lambda>r. r @ replicate (length (missing_columns t0)) PNone)
                                  (t_rows t0)\<rparr>
               \<and> (missing_columns t0 = [] \<longrightarrow> t = t0))"
proof (cases store)
  case None
  let ?t = "\<lparr>t_columns = invoices_schema, t_rows = [], t_seq = 0\<rparr> :: 'a sql_table"
  have "init_db (Some ?t) = Inr (Some ?t)"
    by (rule init_db_noop) (rule missing_fresh)
  with None init_db_None[where ?'a = 'a] show ?thesis
    by (intro exI[of _ ?t]) (simp only: option.case simp_thms)
next
  case (Some t0)
  let ?t = "t0\<lparr>t_columns := t_columns t0
                        @ map (\<lambda>c. Column (fst c) (snd c) False) (missing_columns t0),
                t_rows := map (\<lambda>r. r @ replicate (length (missing_columns t0)) PNone)
                            (t_rows t0)\<rparr>"
  have 1: "init_db (Some t0) = Inr (Some ?t)" by (rule init_db_Some)
  have 2: "init_db (Some ?t) = Inr (Some ?t)"
    by (rule init_db_noop) (rule missing_after)
  have 3: "missing_columns t0 = [] \<longrightarrow> ?t = t0" by simp
  from Some 1 2 3 show ?thesis
    by (intro exI[of _ ?t]) (simp only: option.case simp_thms)
qed

lemma missing_legacy:
  "missing_columns legacy_table
     = [(''date'', ''TEXT''), (''client_address'', ''TEXT''), (''client_number'', ''TEXT'')]"
  by (simp add: missing_columns_def migration_columns_def legacy_table_def column_names_def)

theorem init_db_idempotent_witness:
  "\<exists>t. init_db (Some legacy_table) = Inr (Some t)
       \<and> init_db (Some t) = Inr (Some t)
       \<and> map col_name (t_columns t)
           = map col_name (t_columns legacy_table) @ [''date'', ''client_address'', ''client_number'']
       \<and> t_rows t = map (\<lambda>r. r @ [PNone, PNone, PNone]) (t_rows legacy_table)"
  using init_db_idempotent [of "Some legacy_table"]
  by (auto simp: missing_legacy numeral_3_eq_3)

section \<open>Properties of the Invoice Repository\<close>

lemma cell_of_map:
  "name \<in> set (map col_name cols) \<Longrightarrow>
   cell_of cols (map f cols) name = Some (f (the (find (\<lambda>c. col_name c = name) cols)))"
  by (induction cols) (auto simp: cell_of_def)

lemma cell_of_new_row:
  "name \<in> set (map col_name cols) \<Longrightarrow> map_of binds name = Some v \<Longrightarrow>
   cell_of cols (new_row cols i binds) name = Some v"
proof -
  assume a: "name \<in> set (map col_name cols)" and b: "map_of binds name = Some v"
  then obtain c where "find (\<lambda>c. col_name c = name) cols = Some c" "col_name c = name"
    by (cases "find (\<lambda>c. col_name c = name) cols") (auto simp: find_None_iff find_Some_iff)
  with a b show ?thesis
    unfolding new_row_def by (simp add: cell_of_map)
qed

lemma cell_of_set_cells:
  "map_of binds name = None \<Longrightarrow> cell_of cols (set_cells cols binds r) name = cell_of cols r name"
  by (induction cols binds r rule: set_cells.induct) (auto simp: cell_of_def)

lemma cell_of_set_cells_bound:
  "map_of binds name = Some v \<Longrightarrow> cell_of cols r name \<noteq> None \<Longrightarrow>
   cell_of cols (set_cells cols binds r) name = Some v"
  by (induction cols binds r rule: set_cells.induct) (auto simp: cell_of_def)

lemma length_set_cells: "length (set_cells cols binds r) = length r"
  by (induction cols binds r rule: set_cells.induct) auto

lemma count_distinct:
  "distinct (filter (\<lambda>v. v \<noteq> z) xs) \<Longrightarrow> x \<in> set xs \<Longrightarrow> x \<noteq> z \<Longrightarrow>
   length (filter (\<lambda>v. v = x) xs) = 1"
proof (induction xs)
  case Nil
  then show ?case by simp
next
  case (Cons a xs)
  show ?case
  proof (cases "a = x")
    case True
    with Cons.prems have "x \<notin> set xs" by auto
    then have "filter (\<lambda>v. v = x) xs = []" by (auto simp: filter_empty_conv)
    with True show ?thesis by simp
  next
    case False
    with Cons show ?thesis by (auto split: if_splits)
  qed
qed

lemma form_valid_totals:
  "form_valid ops fm \<Longrightarrow>
   \<exists>items subtotal tax total'.
     calculate_totals ops (table fm) (tax_input fm) = Inr (items, subtotal, tax, total')
     \<and> items \<noteq> []"
  by (simp add: calculate_totals_def totals_loop_eq tax_rate_of_eq Let_def form_valid_def
        retained_items_def)

lemma number_in_store:
  "PStr n \<in> set (invoice_numbers t) \<Longrightarrow>
   \<exists>r \<in> set (t_rows t). cell_of (t_columns t) r ''invoice_number'' = Some (PStr n)"
  by (auto simp: invoice_numbers_def split: option.splits)

lemma insert_conflict:
  assumes ok: "store_ok t"
      and there: "PStr n \<in> set (invoice_numbers t)"
      and bound: "map_of binds ''invoice_number'' = Some (PStr n)"
      and cols: "has_columns t binds"
  shows "insert_row t binds = Inl IntegrityError"
proof -
  from ok obtain c where c: "c \<in> set (t_columns t)" "col_name c = ''invoice_number''" "col_unique c"
    by (auto simp: store_ok_def)
  then have name: "''invoice_number'' \<in> set (map col_name (t_columns t))" by force
  have new: "cell_of (t_columns t) (new_row (t_columns t) (next_id t) binds) ''invoice_number''
               = Some (PStr n)"
    by (rule cell_of_new_row[OF name bound])
  from number_in_store[OF there]
  have "list_ex (\<lambda>r'. cell_of (t_columns t) r' ''invoice_number'' = Some (PStr n)) (t_rows t)"
    by (simp add: list_ex_iff)
  with c new have "unique_conflict t (new_row (t_columns t) (next_id t) binds)"
    unfolding unique_conflict_def list_ex_iff by (intro bexI[of _ c]) simp_all
  with cols show ?thesis by (simp add: insert_row_def Let_def)
qed

lemma sql_value_str: "sql_value ops (PStr s) = PStr s"
  by (simp add: sql_value_def)

lemma map_of_sql_params:
  "map_of (sql_params ops binds) k = map_option (sql_value ops) (map_of binds k)"
  by (induction binds) (simp_all add: sql_params_def)

lemma fst_sql_params: "map fst (sql_params ops binds) = map fst binds"
  by (simp add: sql_params_def)

lemma store_ok_has_columns:
  "store_ok t \<Longrightarrow> set (map fst binds) \<subseteq> set (map col_name invoices_schema) \<Longrightarrow> has_columns t binds"
  by (auto simp: store_ok_def has_columns_def list_all_iff)

text \<open>
  C5. In a store in order that already holds an invoice with the number of the form, a
  create with a valid form ends in the \<^verbatim>\<open>Duplicate\<close> warning, which only the
  \<^verbatim>\<open>IntegrityError\<close> of the \<^verbatim>\<open>UNIQUE\<close> column raises; the world is the one before the call
  (nothing is written, no file either), and exactly one row carries that number.
\<close>

theorem duplicate_create_rejected:
  assumes "db w = Some t"
      and "store_ok t"
      and "\<not> edit_mode fm"
      and "form_valid ops fm"
      and "PStr (py_strip (invoice_number fm)) \<in> set (invoice_numbers t)"
  shows "save_invoice ops today now fm w = (w, Inr Duplicate)
         \<and> number_count (fst (save_invoice ops today now fm w)) (py_strip (invoice_number fm)) = 1"
proof -
  from form_valid_totals[OF assms(4)] obtain items subtotal tax total'
    where tot: "calculate_totals ops (table fm) (tax_input fm) = Inr (items, subtotal, tax, total')"
      and ne: "items \<noteq> []" by blast
  from assms(4) have req: "py_strip (invoice_number fm) \<noteq> []" "py_strip (client_name fm) \<noteq> []"
    "py_strip (description fm) \<noteq> []" by (simp_all add: form_valid_def)
  have ins: "sql_insert ops t binds = Inl IntegrityError"
    if "map_of binds ''invoice_number'' = Some (PStr (py_strip (invoice_number fm)))"
      and "set (map fst binds) \<subseteq> set (map col_name invoices_schema)" for binds
  proof -
    from that(1)
    have "map_of (sql_params ops binds) ''invoice_number''
            = Some (PStr (py_strip (invoice_number fm)))"
      by (simp add: map_of_sql_params sql_value_str)
    moreover from that(2) have "has_columns t (sql_params ops binds)"
      by (intro store_ok_has_columns[OF assms(2)]) (simp add: fst_sql_params)
    ultimately show ?thesis
      unfolding sql_insert_def by (rule insert_conflict[OF assms(2) assms(5)])
  qed
  have res: "save_invoice ops today now fm w = (w, Inr Duplicate)"
    using assms(1,3) req tot ne
    by (simp add: save_invoice_def Let_def ins invoices_schema_def insert_columns_def)
  from assms(2) have "distinct (filter (\<lambda>v. v \<noteq> PNone) (invoice_numbers t))"
    by (simp add: store_ok_def)
  from count_distinct[OF this assms(5)] assms(1) res show ?thesis
    by (simp add: number_count_def)
qed

lemma store_ok_fresh:
  "store_ok \<lparr>t_columns = invoices_schema, t_rows = [], t_seq = 0\<rparr>"
  by (simp add: store_ok_def column_names_def invoice_numbers_def invoices_schema_def)

lemma length_new_row: "length (new_row cols i binds) = length cols"
  by (simp add: new_row_def)

lemma insert_keeps_ok:
  assumes ok: "store_ok t" and ins: "insert_row t binds = Inr t'"
  shows "store_ok t'"
proof -
  let ?r = "new_row (t_columns t) (next_id t) binds"
  from ins have cols: "has_columns t binds" and nc: "\<not> unique_conflict t ?r"
    and t': "t' = t\<lparr>t_rows := t_rows t @ [?r], t_seq := next_id t\<rparr>"
    by (auto simp: insert_row_def Let_def split: if_splits)
  from ok obtain c where c: "c \<in> set (t_columns t)" "col_name c = ''invoice_number''" "col_unique c"
    by (auto simp: store_ok_def)
  let ?v = "case cell_of (t_columns t) ?r ''invoice_number'' of Some v \<Rightarrow> v | None \<Rightarrow> PNone"
  have fresh: "?v \<noteq> PNone \<Longrightarrow> ?v \<notin> set (invoice_numbers t)"
  proof
    assume nn: "?v \<noteq> PNone" and "?v \<in> set (invoice_numbers t)"
    then obtain r' where r': "r' \<in> set (t_rows t)"
      "cell_of (t_columns t) r' ''invoice_number'' = cell_of (t_columns t) ?r ''invoice_number''"
      by (auto simp: invoice_numbers_def split: option.splits)
    with nn c have "unique_conflict t ?r"
      unfolding unique_conflict_def list_ex_iff
      by (intro bexI[of _ c]) (auto split: option.splits pyval.splits)
    with nc show False by simp
  qed
  have nums: "invoice_numbers t' = invoice_numbers t @ [?v]"
    by (simp add: t' invoice_numbers_def)
  from ok have d: "distinct (filter (\<lambda>v. v \<noteq> PNone) (invoice_numbers t))"
    by (simp add: store_ok_def)
  have "distinct (filter (\<lambda>v. v \<noteq> PNone) (invoice_numbers t'))"
    using d fresh by (auto simp: nums)
  with ok show ?thesis
    by (auto simp: store_ok_def t' column_names_def length_new_row)
qed

lemma update_keeps_ok:
  assumes ok: "store_ok t" and upd: "update_rows t binds w wv = Inr t'"
      and nb: "map_of binds ''invoice_number'' = None"
  shows "store_ok t'"
proof -
  from upd have t': "t' = t\<lparr>t_rows := map (\<lambda>r. if wv \<noteq> PNone \<and> cell_of (t_columns t) r w = Some wv
                                           then set_cells (t_columns t) binds r else r) (t_rows t)\<rparr>"
    by (auto simp: update_rows_def split: if_splits)
  have "invoice_numbers t' = invoice_numbers t"
    by (simp add: t' invoice_numbers_def cell_of_set_cells[OF nb] o_def if_distrib cong: if_cong)
  with ok show ?thesis
    by (auto simp: store_ok_def t' column_names_def length_set_cells)
qed


lemma map_of_zip_absent: "k \<notin> set ks \<Longrightarrow> map_of (zip ks vs) k = None"
  by (auto simp: map_of_eq_None_iff dest: set_zip_leftD)

lemma save_db_shape:
  assumes "db w = Some t"
  shows "db (fst (save_invoice ops today now fm w)) = Some t
         \<or> (\<exists>vals t'. sql_insert ops t (zip insert_columns vals) = Inr t'
                \<and> db (fst (save_invoice ops today now fm w)) = Some t')
         \<or> (\<exists>vals wv t'. sql_update ops t (zip update_columns vals) ''invoice_number'' wv = Inr t'
                \<and> db (fst (save_invoice ops today now fm w)) = Some t')"
proof -
  obtain items subtotal tax total'
    where tot: "calculate_totals ops (table fm) (tax_input fm) = Inr (items, subtotal, tax, total')"
    by (simp add: calculate_totals_closed Let_def)
  show ?thesis
  proof (cases "py_strip (invoice_number fm) = [] \<or> py_strip (client_name fm) = []
                \<or> py_strip (description fm) = [] \<or> items = []")
    case True
    with assms tot show ?thesis by (auto simp: save_invoice_def Let_def)
  next
    case False
    show ?thesis
    proof (cases "edit_mode fm")
      case True
      with False assms tot show ?thesis
        by (simp add: save_invoice_def Let_def split: sum.split) blast
    next
      case e: False
      with False assms tot show ?thesis
        by (simp add: save_invoice_def Let_def split: sum.split exn.split) blast
    qed
  qed
qed

lemma save_keeps_ok:
  assumes "db w = Some t" and "store_ok t"
  shows "\<exists>t'. db (fst (save_invoice ops today now fm w)) = Some t' \<and> store_ok t'"
proof -
  have "map_of (sql_params ops (zip update_columns vals)) ''invoice_number'' = None"
    for vals :: "'a pyval list"
    unfolding map_of_sql_params
    by (simp add: map_of_zip_absent update_columns_def)
  with save_db_shape[OF assms(1), of ops today now fm] assms(2) show ?thesis
    unfolding sql_insert_def sql_update_def
    by (auto intro: insert_keeps_ok update_keeps_ok)
qed

lemma save_edit_shape:
  assumes "edit_mode fm" and "db w = Some t"
  shows "(fst (save_invoice ops today now fm w) = w
            \<and> snd (save_invoice ops today now fm w) \<noteq> Inr Updated)
         \<or> (\<exists>binds t'.
               map_of binds ''date'' = None
               \<and> map_of binds ''date_added'' = Some (PStr (submitted_date today fm))
               \<and> update_rows t binds ''invoice_number'' (PStr (py_strip (invoice_number fm))) = Inr t'
               \<and> db (fst (save_invoice ops today now fm w)) = Some t')"
proof -
  obtain items subtotal tax total'
    where tot: "calculate_totals ops (table fm) (tax_input fm) = Inr (items, subtotal, tax, total')"
    by (simp add: calculate_totals_closed Let_def)
  show ?thesis
  proof (cases "py_strip (invoice_number fm) = [] \<or> py_strip (client_name fm) = []
                \<or> py_strip (description fm) = [] \<or> items = []")
    case True
    with assms tot show ?thesis by (auto simp: save_invoice_def Let_def)
  next
    case False
    let ?binds = "zip update_columns
                    [PStr (py_strip (client_name fm)), PStr (py_strip (client_address fm)),
                     PStr (py_strip (client_number fm)), PStr (py_strip (description fm)),
                     PStr (str_items ops items), PFloat subtotal, PFloat tax, PFloat total',
                     PStr (py_strip (email fm)), PStr (py_strip (company_name fm)),
                     PStr (py_strip (company_address fm)), PStr (py_strip (company_contact fm)),
                     PStr (submitted_date today fm)]"
    have 1: "map_of (sql_params ops ?binds) ''date'' = None"
      unfolding map_of_sql_params by (simp add: map_of_zip_absent update_columns_def)
    have 2: "map_of (sql_params ops ?binds) ''date_added'' = Some (PStr (submitted_date today fm))"
      unfolding map_of_sql_params by (simp add: update_columns_def sql_value_str)
    have 3: "sql_update ops t ?binds ''invoice_number'' (PStr (py_strip (invoice_number fm)))
               = update_rows t (sql_params ops ?binds) ''invoice_number''
                   (PStr (py_strip (invoice_number fm)))"
      by (simp add: sql_update_def sql_value_str)
    show ?thesis
    proof (cases "sql_update ops t ?binds ''invoice_number'' (PStr (py_strip (invoice_number fm)))")
      case (Inl e)
      with False assms tot show ?thesis
        by (simp add: save_invoice_def Let_def submitted_date_def)
    next
      case (Inr t')
      with False assms tot have "db (fst (save_invoice ops today now fm w)) = Some t'"
        by (simp add: save_invoice_def Let_def submitted_date_def)
      with 1 2 3 Inr show ?thesis by metis
    qed
  qed
qed

text \<open>
  C10. An update never modifies the column \<^verbatim>\<open>date\<close> of any row, and it leaves the columns
  of the table as they are. When it reports \<^verbatim>\<open>Updated\<close>, the date taken from the form is
  what every row with the invoice number of the form then holds in \<^verbatim>\<open>date_added\<close>.
\<close>

theorem update_never_writes_date:
  assumes "edit_mode fm" and "db w = Some t"
  shows "\<exists>t'. db (fst (save_invoice ops today now fm w)) = Some t'
           \<and> t_columns t' = t_columns t
           \<and> map (\<lambda>r. cell_of (t_columns t') r ''date'') (t_rows t')
               = map (\<lambda>r. cell_of (t_columns t) r ''date'') (t_rows t)
           \<and> (snd (save_invoice ops today now fm w) = Inr Updated \<longrightarrow>
                (\<forall>r \<in> set (zip (t_rows t) (t_rows t')).
                   cell_of (t_columns t) (fst r) ''invoice_number''
                     = Some (PStr (py_strip (invoice_number fm)))
                   \<longrightarrow> cell_of (t_columns t) (fst r) ''date_added'' \<noteq> None
                   \<longrightarrow> cell_of (t_columns t') (snd r) ''date_added''
                         = Some (PStr (submitted_date today fm))))"
  using save_edit_shape[OF assms, of ops today now]
proof (elim disjE conjE exE)
  assume "fst (save_invoice ops today now fm w) = w"
    and "snd (save_invoice ops today now fm w) \<noteq> Inr Updated"
  with assms(2) show ?thesis by simp
next
  fix binds t'
  assume d: "map_of binds ''date'' = None"
    and da: "map_of binds ''date_added'' = Some (PStr (submitted_date today fm))"
    and upd: "update_rows t binds ''invoice_number'' (PStr (py_strip (invoice_number fm))) = Inr t'"
    and res: "db (fst (save_invoice ops today now fm w)) = Some t'"
  let ?f = "\<lambda>r. if cell_of (t_columns t) r ''invoice_number''
                      = Some (PStr (py_strip (invoice_number fm)))
                 then set_cells (t_columns t) binds r else r"
  from upd have t': "t' = t\<lparr>t_rows := map ?f (t_rows t)\<rparr>"
    by (auto simp: update_rows_def split: if_splits)
  have dates: "map (\<lambda>r. cell_of (t_columns t') r ''date'') (t_rows t')
                 = map (\<lambda>r. cell_of (t_columns t) r ''date'') (t_rows t)"
    by (simp add: t' cell_of_set_cells[OF d] o_def if_distrib cong: if_cong)
  have added: "cell_of (t_columns t') (snd r) ''date_added'' = Some (PStr (submitted_date today fm))"
    if "r \<in> set (zip (t_rows t) (t_rows t'))"
      and "cell_of (t_columns t) (fst r) ''invoice_number'' = Some (PStr (py_strip (invoice_number fm)))"
      and "cell_of (t_columns t) (fst r) ''date_added'' \<noteq> None" for r
  proof -
    from that(1) have "snd r = ?f (fst r)"
      by (auto simp: t' zip_map2 in_set_zip)
    with that(2,3) show ?thesis
      by (simp add: t' cell_of_set_cells_bound[OF da])
  qed
  from res dates added show ?thesis
    by (simp add: t')
qed

lemma str_items_example:
  "str_items exact_ops [(''Labor'', 10, 50), (''Materials'', 5, 20)]
     = ''[('Labor', 10.0, 50.0), ('Materials', 5.0, 20.0)]''"
  by code_simp

lemma strip_examples:
  "py_strip '' INV-001 '' = ''INV-001''"
  "py_strip ''Acme Ltd'' = ''Acme Ltd''"
  "py_strip ''12 King St'' = ''12 King St''"
  "py_strip ''555-0100'' = ''555-0100''"
  "py_strip ''Roof repair'' = ''Roof repair''"
  "py_strip ''pay@acme.test'' = ''pay@acme.test''"
  "py_strip ''2025-01-05'' = ''2025-01-05''"
  "py_strip ''2025-02-20'' = ''2025-02-20''"
  "py_strip ''BuildSmart Construction Inc.'' = ''BuildSmart Construction Inc.''"
  "py_strip ''123 Innovation Blvd, Suite 500'' = ''123 Innovation Blvd, Suite 500''"
  "py_strip ''Toronto, ON M1X 1A1'' = ''Toronto, ON M1X 1A1''"
  by (simp_all add: py_strip_def py_isspace_def)

lemma db_saved_world:
  "db saved_world = Some \<lparr>t_columns = invoices_schema, t_rows = [saved_row], t_seq = 1\<rparr>"
  by (simp add: saved_world_def save_invoice_def example_form_def fresh_world_def
        totals_example str_items_example strip_examples sql_insert_def insert_row_def
        sql_params_def sql_value_def isnan_exact has_columns_def column_names_def invoices_schema_def new_row_def unique_conflict_def cell_of_def
        saved_row_def insert_columns_def next_id_def row_ids_def Let_def)

lemma store_ok_saved:
  "store_ok \<lparr>t_columns = invoices_schema, t_rows = [saved_row], t_seq = 1\<rparr>"
  by (simp add: store_ok_def column_names_def invoice_numbers_def invoices_schema_def
        saved_row_def cell_of_def)

lemma form_valid_example: "form_valid exact_ops example_form"
  by (simp add: form_valid_def example_form_def strip_examples valid_rows_example)

lemma numbers_saved:
  "invoice_numbers \<lparr>t_columns = invoices_schema, t_rows = [saved_row], t_seq = 1\<rparr>
     = [PStr ''INV-001'']"
  by (simp add: invoice_numbers_def invoices_schema_def saved_row_def cell_of_def)

theorem duplicate_create_rejected_witness:
  "save_invoice exact_ops ''2025-01-06'' ''2025-01-06 10:00:00'' example_form saved_world
     = (saved_world, Inr Duplicate)
   \<and> number_count
         (fst (save_invoice exact_ops ''2025-01-06'' ''2025-01-06 10:00:00'' example_form saved_world))
         ''INV-001'' = 1"
proof -
  have 1: "\<not> edit_mode example_form" by (simp add: example_form_def)
  have 2: "PStr (py_strip (invoice_number example_form))
             \<in> set (invoice_numbers \<lparr>t_columns = invoices_schema, t_rows = [saved_row], t_seq = 1\<rparr>)"
    by (simp add: numbers_saved example_form_def strip_examples)
  have 3: "py_strip (invoice_number example_form) = ''INV-001''"
    by (simp add: example_form_def strip_examples)
  from duplicate_create_rejected [OF db_saved_world store_ok_saved 1 form_valid_example 2,
      of "''2025-01-06''" "''2025-01-06 10:00:00''"]
  show ?thesis unfolding 3 .
qed

lemma totals_edited:
  "calculate_totals exact_ops [(Some ''Labor'', Some ''8'', Some ''50.0'')] ''13''
     = Inr ([(''Labor'', 8, 50)], 400, 52, 452)"
  by (simp add: calculate_totals_def row_step_def row_try_def py_float_def
        tax_rate_of_def exact_ops_def decimal_def unsigned_decimal_def is_digit_def)

lemma str_items_edited:
  "str_items exact_ops [(''Labor'', 8, 50)] = ''[('Labor', 8.0, 50.0)]''"
  by code_simp

lemma save_edited:
  "save_invoice exact_ops ''2025-03-01'' ''2025-03-01 08:00:00'' edited_form saved_world
     = (edited_world, Inr Updated)
   \<and> db edited_world = Some \<lparr>t_columns = invoices_schema, t_rows = [edited_row], t_seq = 1\<rparr>"
  by (simp add: edited_world_def save_invoice_def edited_form_def example_form_def db_saved_world
        totals_edited str_items_edited strip_examples sql_update_def update_rows_def
        sql_params_def sql_value_def isnan_exact has_columns_def column_names_def invoices_schema_def cell_of_def saved_row_def edited_row_def
        update_columns_def Let_def)

text \<open>
  C6. The invoice of the example is created on 2025-01-05 at 09:30 and edited later with
  other items and the invoice date 2025-02-20. The update keeps the invoice number and
  stores the new subtotal, tax and total, but \<^verbatim>\<open>date_added\<close> no longer holds the time of
  creation: it holds the invoice date of the form.
\<close>

theorem update_overwrites_date_added:
  "map (\<lambda>r. cell_of invoices_schema r ''date_added'') (t_rows (the (db saved_world)))
     = [Some (PStr ''2025-01-05 09:30:00'')]
   \<and> snd (save_invoice exact_ops ''2025-03-01'' ''2025-03-01 08:00:00'' edited_form saved_world)
       = Inr Updated
   \<and> map (\<lambda>r. cell_of invoices_schema r ''date_added'') (t_rows (the (db edited_world)))
       = [Some (PStr ''2025-02-20'')]
   \<and> map (\<lambda>r. (cell_of invoices_schema r ''invoice_number'', cell_of invoices_schema r ''subtotal'',
               cell_of invoices_schema r ''tax'', cell_of invoices_schema r ''total''))
        (t_rows (the (db edited_world)))
       = [(Some (PStr ''INV-001''), Some (PFloat 400), Some (PFloat 52), Some (PFloat 452))]"
  by (simp add: save_edited db_saved_world)
     (simp add: invoices_schema_def cell_of_def saved_row_def edited_row_def)

theorem update_never_writes_date_witness:
  "snd (save_invoice exact_ops ''2025-03-01'' ''2025-03-01 08:00:00'' edited_form saved_world)
     = Inr Updated
   \<and> (\<exists>t'. db edited_world = Some t'
          \<and> map (\<lambda>r. cell_of (t_columns t') r ''date'') (t_rows t') = [Some (PStr ''2025-01-05'')]
          \<and> map (\<lambda>r. cell_of (t_columns t') r ''date_added'') (t_rows t')
              = [Some (PStr ''2025-02-20'')])"
proof -
  have e: "edit_mode edited_form" by (simp add: edited_form_def)
  have u: "snd (save_invoice exact_ops ''2025-03-01'' ''2025-03-01 08:00:00'' edited_form saved_world)
             = Inr Updated"
    by (simp add: save_edited)
  have s: "submitted_date ''2025-03-01'' edited_form = ''2025-02-20''"
    by (simp add: submitted_date_def edited_form_def strip_examples)
  have n: "py_strip (invoice_number edited_form) = ''INV-001''"
    by (simp add: edited_form_def example_form_def strip_examples)
  from update_never_writes_date [OF e db_saved_world, of exact_ops "''2025-03-01''"
      "''2025-03-01 08:00:00''"]
  obtain t' where t': "db edited_world = Some t'" "t_columns t' = invoices_schema"
    and d: "map (\<lambda>r. cell_of (t_columns t') r ''date'') (t_rows t')
              = map (\<lambda>r. cell_of invoices_schema r ''date'') [saved_row]"
    and a: "\<forall>r \<in> set (zip [saved_row] (t_rows t')).
              cell_of invoices_schema (fst r) ''invoice_number'' = Some (PStr ''INV-001'')
              \<longrightarrow> cell_of invoices_schema (fst r) ''date_added'' \<noteq> None
              \<longrightarrow> cell_of (t_columns t') (snd r) ''date_added'' = Some (PStr ''2025-02-20'')"
    unfolding edited_world_def [symmetric] u s n by auto
  from d have len: "length (t_rows t') = 1" by (auto dest: map_eq_imp_length_eq)
  then obtain r' where r': "t_rows t' = [r']" by (cases "t_rows t'") auto
  have c: "cell_of invoices_schema saved_row ''invoice_number'' = Some (PStr ''INV-001'')"
      "cell_of invoices_schema saved_row ''date_added'' \<noteq> None"
      "cell_of invoices_schema saved_row ''date'' = Some (PStr ''2025-01-05'')"
    by (simp_all add: invoices_schema_def saved_row_def cell_of_def)
  from a r' c have "cell_of (t_columns t') r' ''date_added'' = Some (PStr ''2025-02-20'')"
    by simp
  with t' d r' c u show ?thesis by simp
qed

text \<open>
  C8. In the table that \<^verbatim>\<open>init_db\<close> creates, the positions 3 to 11 of a row are the columns
  \<^verbatim>\<open>client_address\<close> to \<^verbatim>\<open>company_name\<close>, and \<^verbatim>\<open>open_invoice_details\<close> binds them to the
  keys \<^verbatim>\<open>description\<close> to \<^verbatim>\<open>company_contact\<close>: for the invoice of the example the key
  \<^verbatim>\<open>description\<close> holds the client address, \<^verbatim>\<open>items\<close> the client number, \<^verbatim>\<open>subtotal\<close> the
  description, and the last four columns of the row are under no key.
\<close>

theorem get_reads_wrong_columns:
  "open_invoice_details (db saved_world) 1 =
     Inr (Some [(''id'', PInt 1), (''invoice_number'', PStr ''INV-001''),
                (''client_name'', PStr ''Acme Ltd''), (''description'', PStr ''12 King St''),
                (''items'', PStr ''555-0100''), (''subtotal'', PStr ''Roof repair''),
                (''tax'', PStr ''[('Labor', 10.0, 50.0), ('Materials', 5.0, 20.0)]''),
                (''total'', PFloat 600), (''email'', PFloat 78), (''company_name'', PFloat 678),
                (''company_address'', PStr ''pay@acme.test''),
                (''company_contact'', PStr ''BuildSmart Construction Inc.'')])
   \<and> cell_of invoices_schema saved_row ''description'' = Some (PStr ''Roof repair'')"
  by (simp add: db_saved_world open_invoice_details_def select_by_id_def column_names_def
        invoices_schema_def cell_of_def saved_row_def invoice_keys_def)

section \<open>Properties of the Document Renderer\<close>




















































lemma scan_example:
  "scan Start ''[('Labor', 10.0, 50.0)]''
     = Some [LBrack, LParen, TStr ''Labor'', Comma, TAtom ''10.0'', Comma, TAtom ''50.0'', RParen, RBrack]"
  by (simp add: scan_simps)

lemma eval_legacy_items:
  "eval_items exact_ops (PStr ''[('Labor', 10.0, 50.0)]'') = Inr [(''Labor'', 10, 50)]"
  by (simp add: eval_items_def eval_text_def scan_example parse_items_def parse_tuples.simps
        take_tuple_def triple_of_def atom_of_def eval_simps del: scan.simps)


lemma legacy_read: "open_invoice_details (Some legacy_table) 1 = Inr (Some legacy_record)"
  by (simp add: open_invoice_details_def select_by_id_def column_names_def legacy_table_def
        cell_of_def invoice_keys_def legacy_record_def)




section \<open>Properties of the Item Serializer\<close>

lemma of_char_lt_256: "(of_char c :: nat) < 256"
proof -
  have "(of_char c :: nat) mod 256 = of_char c" by simp
  then show ?thesis by (metis mod_less_divisor zero_less_numeral)
qed

lemma hex_value_digit: "k < 16 \<Longrightarrow> hex_value (hex_digit k) = Some k"
  by (auto simp: hex_value_def hex_digit_def Let_def)

lemma char_of_hex: "char_of (16 * ((of_char c :: nat) div 16) + of_char c mod 16) = c"
  by simp

lemma quote_chars:
  "squote \<noteq> backslash" "dquote \<noteq> backslash" "squote \<noteq> CHR ''x''" "dquote \<noteq> CHR ''x''"
  "backslash \<noteq> CHR ''x''" "squote \<noteq> CHR 0x0A" "dquote \<noteq> CHR 0x0A"
  by (simp_all add: squote_def dquote_def backslash_def)

lemma scan_repr_char:
  assumes q: "q = squote \<or> q = dquote"
  shows "scan (InStr q acc) (repr_char q c @ rest) = scan (InStr q (acc @ [c])) rest"
proof -
  consider (esc) "c = q \<or> c = backslash"
    | (tab) "c \<noteq> q" "c \<noteq> backslash" "c = CHR 0x09"
    | (nl) "c \<noteq> q" "c \<noteq> backslash" "c = CHR 0x0A"
    | (cr) "c \<noteq> q" "c \<noteq> backslash" "c = CHR 0x0D"
    | (pr) "c \<noteq> q" "c \<noteq> backslash" "c \<noteq> CHR 0x09" "c \<noteq> CHR 0x0A" "c \<noteq> CHR 0x0D"
           "py_isprintable c"
    | (hex) "c \<noteq> q" "c \<noteq> backslash" "c \<noteq> CHR 0x09" "c \<noteq> CHR 0x0A" "c \<noteq> CHR 0x0D"
           "\<not> py_isprintable c"
    by blast
  then show ?thesis
  proof cases
    case esc
    with q show ?thesis
      by (auto simp: repr_char_def escape_char_def squote_def dquote_def backslash_def)
  next
    case tab
    with q show ?thesis
      by (auto simp: repr_char_def escape_char_def squote_def dquote_def backslash_def)
  next
    case nl
    with q show ?thesis
      by (auto simp: repr_char_def escape_char_def squote_def dquote_def backslash_def)
  next
    case cr
    with q show ?thesis
      by (auto simp: repr_char_def escape_char_def squote_def dquote_def backslash_def)
  next
    case pr
    then show ?thesis
      by (simp add: repr_char_def)
  next
    case hex
    have "(of_char c :: nat) div 16 < 16" using of_char_lt_256[of c] by presburger
    moreover have "(of_char c :: nat) mod 16 < 16" by simp
    ultimately show ?thesis
      using hex q
      by (auto simp: repr_char_def hex_value_digit squote_def dquote_def backslash_def)
  qed
qed

lemma scan_repr_body:
  assumes q: "q = squote \<or> q = dquote"
  shows "scan (InStr q acc) (concat (map (repr_char q) s) @ q # rest)
           = map_option (Cons (TStr (acc @ s))) (scan Start rest)"
proof (induction s arbitrary: acc)
  case Nil
  then show ?case by simp
next
  case (Cons c s)
  have "scan (InStr q acc) (concat (map (repr_char q) (c # s)) @ q # rest)
          = scan (InStr q acc) (repr_char q c @ (concat (map (repr_char q) s) @ q # rest))"
    by simp
  also have "\<dots> = scan (InStr q (acc @ [c])) (concat (map (repr_char q) s) @ q # rest)"
    by (rule scan_repr_char[OF q])
  also have "\<dots> = map_option (Cons (TStr ((acc @ [c]) @ s))) (scan Start rest)"
    by (rule Cons.IH)
  finally show ?case by simp
qed

lemma repr_quote_cases: "repr_quote s = squote \<or> repr_quote s = dquote"
  by (simp add: repr_quote_def)

lemma scan_repr_str:
  "scan Start (repr_str s @ rest) = map_option (Cons (TStr s)) (scan Start rest)"
proof -
  have st: "start_char (repr_quote s) = BeginStr (repr_quote s)"
    using repr_quote_cases[of s] by (auto simp: start_char_def squote_def dquote_def)
  show ?thesis
    using scan_repr_body[OF repr_quote_cases, of s "[]" s rest]
    by (simp add: repr_str_def Let_def st)
qed

lemma not_atom_chars:
  "\<not> is_atom_char CHR '',''" "\<not> is_atom_char CHR '')''" "\<not> is_atom_char CHR '' ''"
  "\<not> is_atom_char CHR 0x09" "\<not> is_atom_char CHR ''[''" "\<not> is_atom_char CHR '']''"
  "\<not> is_atom_char CHR ''(''" "\<not> is_atom_char squote" "\<not> is_atom_char dquote"
  by (simp_all add: is_atom_char_def is_digit_def is_alpha_def squote_def dquote_def)

lemma start_atom:
  assumes "is_atom_char c"
  shows "start_char c = BeginAtom"
proof -
  from assms not_atom_chars
  have "c \<noteq> CHR '',''" "c \<noteq> CHR '')''" "c \<noteq> CHR '' ''" "c \<noteq> CHR 0x09" "c \<noteq> CHR ''[''"
    "c \<noteq> CHR '']''" "c \<noteq> CHR ''(''" "c \<noteq> squote" "c \<noteq> dquote"
    by blast+
  with assms show ?thesis by (simp add: start_char_def)
qed

lemma start_chars:
  "start_char CHR '','' = Emit Comma" "start_char CHR '')'' = Emit RParen"
  "start_char CHR '' '' = Skip" "start_char CHR ''('' = Emit LParen"
  "start_char CHR ''['' = Emit LBrack" "start_char CHR '']'' = Emit RBrack"
  by (simp_all add: start_char_def)

lemma scan_atom_run:
  "list_all is_atom_char cs \<Longrightarrow> scan (InAtom a) (cs @ rest) = scan (InAtom (a @ cs)) rest"
  by (induction cs arbitrary: a) simp_all

lemma scan_atom_comma:
  assumes "tok \<noteq> []" and "list_all is_atom_char tok"
  shows "scan Start (tok @ '', '' @ rest)
           = map_option (\<lambda>ts. TAtom tok # Comma # ts) (scan Start rest)"
proof -
  from assms obtain c cs where tok: "tok = c # cs" and c: "is_atom_char c"
    and cs: "list_all is_atom_char cs" by (cases tok) auto
  have "scan Start (tok @ '', '' @ rest) = scan (InAtom [c]) (cs @ '', '' @ rest)"
    by (simp add: tok start_atom[OF c])
  also have "\<dots> = scan (InAtom tok) ('', '' @ rest)"
    by (simp add: scan_atom_run[OF cs] tok)
  also have "\<dots> = map_option (\<lambda>ts. TAtom tok # Comma # ts) (scan Start rest)"
    by (simp add: not_atom_chars start_chars)
  finally show ?thesis .
qed

lemma scan_atom_paren:
  assumes "tok \<noteq> []" and "list_all is_atom_char tok"
  shows "scan Start (tok @ '')'' @ rest)
           = map_option (\<lambda>ts. TAtom tok # RParen # ts) (scan Start rest)"
proof -
  from assms obtain c cs where tok: "tok = c # cs" and c: "is_atom_char c"
    and cs: "list_all is_atom_char cs" by (cases tok) auto
  have "scan Start (tok @ '')'' @ rest) = scan (InAtom [c]) (cs @ '')'' @ rest)"
    by (simp add: tok start_atom[OF c])
  also have "\<dots> = scan (InAtom tok) ('')'' @ rest)"
    by (simp add: scan_atom_run[OF cs] tok)
  also have "\<dots> = map_option (\<lambda>ts. TAtom tok # RParen # ts) (scan Start rest)"
    by (simp add: not_atom_chars start_chars)
  finally show ?thesis .
qed

lemma scan_item:
  assumes "atomic ops (fst (snd it))" and "atomic ops (snd (snd it))"
  shows "scan Start (repr_item ops it @ rest)
           = map_option (\<lambda>ts. item_tokens ops it @ ts) (scan Start rest)"
proof (cases it)
  case (fields d q p)
  from assms fields have q: "f_repr ops q \<noteq> []" "list_all is_atom_char (f_repr ops q)"
    and p: "f_repr ops p \<noteq> []" "list_all is_atom_char (f_repr ops p)"
    by (simp_all add: atomic_def)
  have "repr_item ops it @ rest
          = ''('' @ repr_str d @ '', '' @ f_repr ops q @ '', '' @ f_repr ops p @ '')'' @ rest"
    by (simp add: repr_item_def fields)
  then have "scan Start (repr_item ops it @ rest)
          = map_option (Cons LParen)
              (scan Start (repr_str d @ ('', '' @ f_repr ops q @ '', '' @ f_repr ops p @ '')'' @ rest)))"
    by (simp add: start_chars)
  also have "scan Start (repr_str d @ ('', '' @ f_repr ops q @ '', '' @ f_repr ops p @ '')'' @ rest))
          = map_option (Cons (TStr d))
              (scan Start ('', '' @ f_repr ops q @ '', '' @ f_repr ops p @ '')'' @ rest))"
    by (rule scan_repr_str)
  also have "scan Start ('', '' @ f_repr ops q @ '', '' @ f_repr ops p @ '')'' @ rest)
          = map_option (Cons Comma) (scan Start (f_repr ops q @ '', '' @ (f_repr ops p @ '')'' @ rest)))"
    by (simp add: start_chars)
  also have "scan Start (f_repr ops q @ '', '' @ (f_repr ops p @ '')'' @ rest))
          = map_option (\<lambda>ts. TAtom (f_repr ops q) # Comma # ts)
              (scan Start (f_repr ops p @ '')'' @ rest))"
    by (rule scan_atom_comma[OF q])
  also have "scan Start (f_repr ops p @ '')'' @ rest)
          = map_option (\<lambda>ts. TAtom (f_repr ops p) # RParen # ts) (scan Start rest)"
    by (rule scan_atom_paren[OF p])
  finally show ?thesis
    by (simp add: item_tokens_def fields option.map_comp o_def)
qed

lemma scan_tuples:
  "list_all (\<lambda>it. atomic ops (fst (snd it)) \<and> atomic ops (snd (snd it))) items \<Longrightarrow>
   scan Start (join_comma (map (repr_item ops) items) @ rest)
     = map_option (\<lambda>ts. tuple_tokens ops items @ ts) (scan Start rest)"
proof (induction ops items rule: tuple_tokens.induct)
  case (1 ops)
  then show ?case by (simp add: option.map_ident)
next
  case (2 ops it)
  then show ?case by (simp add: scan_item)
next
  case (3 ops it it' its)
  from "3.prems" have v: "atomic ops (fst (snd it))" "atomic ops (snd (snd it))"
    and vs: "list_all (\<lambda>it. atomic ops (fst (snd it)) \<and> atomic ops (snd (snd it))) (it' # its)"
    by simp_all
  have "scan Start (join_comma (map (repr_item ops) (it # it' # its)) @ rest)
          = scan Start (repr_item ops it @ ('', '' @ join_comma (map (repr_item ops) (it' # its)) @ rest))"
    by simp
  also have "\<dots> = map_option (\<lambda>ts. item_tokens ops it @ ts)
                      (scan Start ('', '' @ join_comma (map (repr_item ops) (it' # its)) @ rest))"
    by (rule scan_item[OF v])
  also have "scan Start ('', '' @ join_comma (map (repr_item ops) (it' # its)) @ rest)
          = map_option (Cons Comma)
              (scan Start (join_comma (map (repr_item ops) (it' # its)) @ rest))"
    by (simp add: start_chars)
  also have "scan Start (join_comma (map (repr_item ops) (it' # its)) @ rest)
          = map_option (\<lambda>ts. tuple_tokens ops (it' # its) @ ts) (scan Start rest)"
    by (rule "3.IH"[OF vs])
  finally show ?case
    by (simp add: option.map_comp o_def)
qed

lemma scan_str_items:
  "list_all (\<lambda>it. atomic ops (fst (snd it)) \<and> atomic ops (snd (snd it))) items \<Longrightarrow>
   scan Start (str_items ops items) = Some (LBrack # tuple_tokens ops items @ [RBrack])"
  using scan_tuples[of ops items "'']''"]
  by (simp add: str_items_def start_chars)

lemma valid_items_atomic:
  "valid_items ops items \<Longrightarrow>
   list_all (\<lambda>it. atomic ops (fst (snd it)) \<and> atomic ops (snd (snd it))) items"
  by (simp add: valid_items_def numeric_def list_all_iff)

lemma take_item_tokens:
  "take_tuple (item_tokens ops it @ rest) = Some (raw_item ops it, rest)"
  by (cases it) (simp add: take_tuple_def item_tokens_def raw_item_def)

lemma parse_tuple_tokens:
  "items \<noteq> [] \<Longrightarrow>
   parse_tuples (tuple_tokens ops items @ [RBrack]) = Some (map (raw_item ops) items)"
proof (induction ops items rule: tuple_tokens.induct)
  case (1 ops)
  then show ?case by simp
next
  case (2 ops it)
  show ?case
    by (subst parse_tuples.simps) (simp add: take_item_tokens)
next
  case (3 ops it it' its)
  have "parse_tuples (tuple_tokens ops (it # it' # its) @ [RBrack])
          = parse_tuples (item_tokens ops it @ (Comma # tuple_tokens ops (it' # its) @ [RBrack]))"
    by simp
  also have "\<dots> = map_option (Cons (raw_item ops it))
                      (parse_tuples (tuple_tokens ops (it' # its) @ [RBrack]))"
    by (subst parse_tuples.simps) (simp add: take_item_tokens)
  finally show ?case using "3.IH" by simp
qed

lemma item_tokens_start: "\<exists>ts. item_tokens ops it = LParen # ts"
  by (cases it) (simp add: item_tokens_def)

lemma tuple_tokens_start: "items \<noteq> [] \<Longrightarrow> \<exists>ts. tuple_tokens ops items = LParen # ts"
proof (cases items)
  case Nil
  then show "items \<noteq> [] \<Longrightarrow> ?thesis" by simp
next
  case (Cons it its)
  obtain ts where ts: "item_tokens ops it = LParen # ts"
    using item_tokens_start by blast
  show ?thesis
  proof (cases its)
    case Nil
    with Cons ts show ?thesis by simp
  next
    case (Cons it' its')
    with \<open>items = it # its\<close> ts show ?thesis by simp
  qed
qed

lemma parse_items_tokens:
  "parse_items (LBrack # tuple_tokens ops items @ [RBrack]) = Some (map (raw_item ops) items)"
proof (cases "items = []")
  case True
  then show ?thesis by (simp add: parse_items_def)
next
  case False
  from tuple_tokens_start[OF this, of ops] obtain ts where "tuple_tokens ops items = LParen # ts" ..
  then have "tuple_tokens ops items @ [RBrack] \<noteq> [RBrack]" by simp
  with False show ?thesis by (simp add: parse_items_def parse_tuple_tokens)
qed

lemma triples_of_raw:
  "valid_items ops items \<Longrightarrow>
   those (map (triple_of ops \<circ> raw_item ops) items)
     = Some (map (\<lambda>it. case it of (d, q, p) \<Rightarrow> (d, Num q, Num p)) items)"
  by (induction items)
     (auto simp: valid_items_def numeric_def triple_of_def raw_item_def atom_of_def)

lemma eval_triples_nums:
  "eval_triples (map (\<lambda>it. case it of (d, q, p) \<Rightarrow> (d, Num q, Num p)) items) = Inr items"
  by (induction items) auto

text \<open>
  Outside the valid sequences: a quantity that \<^verbatim>\<open>repr\<close> prints as a name, as it prints
  \<^verbatim>\<open>inf\<close> and \<^verbatim>\<open>nan\<close>, is written to the text, and evaluating the text is a
  \<^verbatim>\<open>NameError\<close>.
\<close>

lemma name_quantity_raises:
  assumes q: "atomic ops q" "f_literal ops (f_repr ops q) = None" "is_name (f_repr ops q)"
      and p: "numeric ops p"
  shows "eval_items ops (PStr (str_items ops [(d, q, p)])) = Inl NameError"
proof -
  from q(1) p have a: "list_all (\<lambda>it. atomic ops (fst (snd it)) \<and> atomic ops (snd (snd it)))
                         [(d, q, p)]"
    by (simp add: numeric_def)
  have t: "triple_of ops (raw_item ops (d, q, p)) = Some (d, Name (f_repr ops q), Num p)"
    using q p by (simp add: triple_of_def raw_item_def atom_of_def numeric_def)
  have s: "scan Start (str_items ops [(d, q, p)])
             = Some (LBrack # tuple_tokens ops [(d, q, p)] @ [RBrack])"
    by (rule scan_str_items[OF a])
  have r: "parse_items (LBrack # tuple_tokens ops [(d, q, p)] @ [RBrack])
             = Some (map (raw_item ops) [(d, q, p)])"
    by (rule parse_items_tokens)
  show ?thesis
    by (simp add: eval_items_def eval_text_def s r t del: scan.simps tuple_tokens.simps)
qed

text \<open>
  C3, as amended. For every sequence of line items whose quantities and unit prices are
  numeric (for Python: finite floats), with any description strings, evaluating the text
  that \<^verbatim>\<open>str\<close> writes gives the sequence back.
\<close>

theorem serialize_roundtrip:
  assumes "valid_items ops items"
  shows "eval_items ops (PStr (str_items ops items)) = Inr items"
  by (simp add: eval_items_def eval_text_def scan_str_items[OF valid_items_atomic[OF assms]]
        parse_items_tokens triples_of_raw[OF assms] eval_triples_nums del: scan.simps)

lemma reprs: "decimal_repr 10 = ''10.0''" "decimal_repr 50 = ''50.0''"
  "decimal_repr 5 = ''5.0''" "decimal_repr 20 = ''20.0''"
  by (simp_all add: eval_simps)

lemma literals: "decimal True ''10.0'' = Some 10" "decimal True ''50.0'' = Some 50"
  "decimal True ''5.0'' = Some 5" "decimal True ''20.0'' = Some 20"
  by (simp_all add: eval_simps)

lemma numeric_examples:
  "numeric exact_ops 10" "numeric exact_ops 50" "numeric exact_ops 5" "numeric exact_ops 20"
  by (simp_all add: numeric_def atomic_def exact_ops_def reprs literals is_atom_char_def
        is_digit_def)

theorem serialize_roundtrip_witness:
  "str_items exact_ops tricky_items
     = ''[('Joe'' @ [CHR 0x5C] @ '''s \"deck\", 2 (of 3)]', 10.0, 50.0), ('Materials', 5.0, 20.0)]''
   \<and> eval_items exact_ops (PStr (str_items exact_ops tricky_items)) = Inr tricky_items"
proof -
  have v: "valid_items exact_ops tricky_items"
    by (simp add: valid_items_def tricky_items_def numeric_examples)
  have s: "str_items exact_ops tricky_items
     = ''[('Joe'' @ [CHR 0x5C] @ '''s \"deck\", 2 (of 3)]', 10.0, 50.0), ('Materials', 5.0, 20.0)]''"
    by (simp add: str_items_def tricky_items_def repr_item_def repr_str_def repr_quote_def
          repr_char_def py_isprintable_def squote_def dquote_def backslash_def exact_ops_def
          reprs Let_def)
  from serialize_roundtrip [OF v] s show ?thesis by simp
qed

lemma totals_inf:
  "calculate_totals ieee_ops [(Some ''Gold'', Some ''inf'', Some ''1'')] []
     = Inr ([(''Gold'', PosInf, Finite 1)], PosInf, NaN, NaN)"
  by (simp add: calculate_totals_def row_step_def row_try_def py_float_def tax_rate_of_def
        ieee_ops_def x_parse_def decimal_def unsigned_decimal_def is_digit_def x_inf_def
        x_sign_def)


lemma str_items_inf:
  "str_items ieee_ops [(''Gold'', PosInf, Finite 1)] = ''[('Gold', inf, 1.0)]''"
  by (simp add: str_items_def repr_item_def repr_str_def repr_quote_def repr_char_def
        py_isprintable_def squote_def dquote_def backslash_def ieee_ops_def x_print_def
        eval_simps)

lemma scan_inf:
  "scan Start ''[('Gold', inf, 1.0)]''
     = Some [LBrack, LParen, TStr ''Gold'', Comma, TAtom ''inf'', Comma, TAtom ''1.0'', RParen,
             RBrack]"
  by (simp add: scan_simps)

lemma eval_inf: "eval_items ieee_ops (PStr ''[('Gold', inf, 1.0)]'') = Inl NameError"
  by (simp add: eval_items_def eval_text_def scan_inf parse_items_def parse_tuples.simps
        take_tuple_def triple_of_def atom_of_def is_name_def is_alpha_def is_digit_def
        ieee_ops_def eval_simps del: scan.simps)

text \<open>
  C3 as stated fails. The grid row \<^verbatim>\<open>('Gold', 'inf', '1')\<close> is valid for the Totals
  Calculator, which retains the item with the quantity infinity; \<^verbatim>\<open>str\<close> writes the
  quantity as the name \<^verbatim>\<open>inf\<close>, and evaluating the text is a \<^verbatim>\<open>NameError\<close>, not the item.
\<close>

theorem infinite_quantity_not_read_back:
  "calculate_totals ieee_ops [(Some ''Gold'', Some ''inf'', Some ''1'')] []
     = Inr ([(''Gold'', PosInf, Finite 1)], PosInf, NaN, NaN)
   \<and> str_items ieee_ops [(''Gold'', PosInf, Finite 1)] = ''[('Gold', inf, 1.0)]''
   \<and> eval_items ieee_ops (PStr (str_items ieee_ops [(''Gold'', PosInf, Finite 1)]))
       = Inl NameError"
  by (simp only: totals_inf str_items_inf eval_inf simp_thms)

end
